theory Spec2Isabelle
  imports Complex_Main
begin

section \<open>Numbers\<close>

text \<open>
  The geometry kernel of Gmt computes on JavaScript numbers, which are IEEE 754 binary64
  values. Two models of them are used.

  Where a claim is about the structure of a computation, or about values that binary64
  arithmetic computes without rounding, numbers are modelled as \<^typ>\<open>real\<close>, with
  \<open>Math.sqrt\<close>, \<open>Math.atan\<close> and \<open>Math.PI\<close> as \<^const>\<open>sqrt\<close>, \<^const>\<open>arctan\<close> and
  \<^const>\<open>pi\<close>. A division by zero yields an infinity or NaN, which no real number stands
  for: \<open>divide_num\<close> returns \<open>None\<close> on a zero divisor, and a function that divides
  returns an option.

  Where a claim depends on rounding, overflow or NaN (exact equality of two results that
  are computed in different orders, a product with an overflowed difference), numbers are
  modelled as binary64 values, see the section on binary64 numbers below; the functions
  over them carry the suffix \<open>64\<close>.
\<close>

definition divide_num :: "real \<Rightarrow> real \<Rightarrow> real option" where
  "divide_num a b = (if b = 0 then None else Some (a / b))"

text \<open>
  An argument of a constructor may be left out (\<open>undefined\<close>): \<open>None\<close>. The truthiness
  of \<open>if (x && y)\<close>: \<open>undefined\<close> and \<open>0\<close> are falsy, every other number is truthy.
\<close>

definition truthy :: "real option \<Rightarrow> bool" where
  "truthy a = (case a of None \<Rightarrow> False | Some v \<Rightarrow> v \<noteq> 0)"

text \<open>\<open>xs[i]\<close>: \<open>undefined\<close> (\<open>None\<close>) out of range.\<close>

definition index :: "'a list \<Rightarrow> int \<Rightarrow> 'a option" where
  "index xs i = (if 0 \<le> i \<and> i < int (length xs) then Some (xs ! nat i) else None)"

text \<open>Reading a property of \<open>undefined\<close> throws.\<close>

datatype error = TypeError

section \<open>Utilities and constants\<close>

definition between :: "real \<Rightarrow> real \<Rightarrow> real \<Rightarrow> bool" where
  "between num mn mx \<longleftrightarrow> num \<ge> mn \<and> num \<le> mx"

definition PI :: real where
  "PI = pi"

section \<open>Shapes\<close>

text \<open>
  The fields \<open>x\<close>, \<open>y\<close> of a Vertex are \<open>vx\<close>, \<open>vy\<close> and those of a Circle are
  \<open>cx\<close>, \<open>cy\<close>; the field \<open>end\<close> of a Segment is \<open>endv\<close>; the fields \<open>t\<close>, \<open>u\<close>,
  \<open>r\<close> of the results are \<open>t_of\<close>, \<open>u_of\<close>, \<open>r_of\<close>.
\<close>

record Vertex =
  vx :: real
  vy :: real

record Segment =
  start :: Vertex
  endv :: Vertex

definition Segment_new :: "real \<Rightarrow> real \<Rightarrow> real \<Rightarrow> real \<Rightarrow> Segment" where
  "Segment_new x1 y1 x2 y2 = \<lparr>start = \<lparr>vx = x1, vy = y1\<rparr>, endv = \<lparr>vx = x2, vy = y2\<rparr>\<rparr>"

record PolyLine =
  vertices :: "Vertex list"

record Polygon =
  body :: PolyLine

record Circle =
  cx :: real
  cy :: real
  radius :: real

section \<open>Distance\<close>

definition plain :: "real \<Rightarrow> real \<Rightarrow> real \<Rightarrow> real \<Rightarrow> real" where
  "plain x1 y1 x2 y2 = (let dx = x1 - x2; dy = y1 - y2 in sqrt (dx * dx + dy * dy))"

definition Distance_vertices :: "Vertex \<Rightarrow> Vertex \<Rightarrow> real" where
  "Distance_vertices v1 v2 = plain (vx v1) (vy v1) (vx v2) (vy v2)"


section \<open>Segment, PolyLine, Polygon, Circle\<close>

definition Segment_length :: "Segment \<Rightarrow> real" where
  "Segment_length s = Distance_vertices (start s) (endv s)"

definition PolyLine_new :: "real option \<Rightarrow> real option \<Rightarrow> PolyLine" where
  "PolyLine_new x y =
     \<lparr>vertices = (if truthy x \<and> truthy y then [] @ [\<lparr>vx = the x, vy = the y\<rparr>] else [])\<rparr>"

definition PolyLine_add :: "PolyLine \<Rightarrow> real \<Rightarrow> real \<Rightarrow> PolyLine" where
  "PolyLine_add pl x y = pl\<lparr>vertices := vertices pl @ [\<lparr>vx = x, vy = y\<rparr>]\<rparr>"

text \<open>
  The loop of \<open>PolyLine.toSegments\<close>: \<open>for (let i = 0; i < this.vertices.length - 1; i++)\<close>.
  The bound is \<open>-1\<close> on an empty list, so the comparison is made on integers.
\<close>

function toSegments_loop :: "Vertex list \<Rightarrow> nat \<Rightarrow> Segment list \<Rightarrow> Segment list" where
  "toSegments_loop vs i segments =
     (if int i < int (length vs) - 1
      then (let v1 = vs ! i; v2 = vs ! (i + 1)
            in toSegments_loop vs (i + 1)
                 (segments @ [Segment_new (vx v1) (vy v1) (vx v2) (vy v2)]))
      else segments)"
  by pat_completeness auto
termination
  by (relation "measure (\<lambda>(vs, i, segments). length vs - i)") auto

declare toSegments_loop.simps [simp del]

definition PolyLine_toSegments :: "PolyLine \<Rightarrow> Segment list" where
  "PolyLine_toSegments pl = toSegments_loop (vertices pl) 0 []"

definition PolyLine_toVertices :: "PolyLine \<Rightarrow> Vertex list" where
  "PolyLine_toVertices pl = vertices pl"

text \<open>\<open>let len = 0; segments.forEach(s => len += s.length()); return len\<close>\<close>

definition sum_lengths :: "Segment list \<Rightarrow> real" where
  "sum_lengths segments = foldl (\<lambda>len s. len + Segment_length s) 0 segments"

definition PolyLine_length :: "PolyLine \<Rightarrow> real" where
  "PolyLine_length pl = sum_lengths (PolyLine_toSegments pl)"

definition Polygon_new :: "real option \<Rightarrow> real option \<Rightarrow> Polygon" where
  "Polygon_new x y = \<lparr>body = PolyLine_new x y\<rparr>"

definition Polygon_add :: "Polygon \<Rightarrow> real \<Rightarrow> real \<Rightarrow> Polygon" where
  "Polygon_add p x y = p\<lparr>body := (body p)\<lparr>vertices := vertices (body p) @ [\<lparr>vx = x, vy = y\<rparr>]\<rparr>\<rparr>"

definition Polygon_toVertices :: "Polygon \<Rightarrow> Vertex list" where
  "Polygon_toVertices p = PolyLine_toVertices (body p)"

text \<open>
  \<open>Polygon.toSegments\<close> reads \<open>vs.x\<close> of the first vertex and \<open>ve.x\<close> of the last one: on
  an empty vertex list both are \<open>undefined\<close> and the read throws.
\<close>

definition Polygon_toSegments :: "Polygon \<Rightarrow> error + Segment list" where
  "Polygon_toSegments p =
     (let segments = PolyLine_toSegments (body p);
          vs = index (Polygon_toVertices p) 0;
          ve = index (Polygon_toVertices p) (int (length (Polygon_toVertices p)) - 1)
      in case vs of
           None \<Rightarrow> Inl TypeError
         | Some vs' \<Rightarrow>
             (case ve of
                None \<Rightarrow> Inl TypeError
              | Some ve' \<Rightarrow> Inr (segments @ [Segment_new (vx vs') (vy vs') (vx ve') (vy ve')])))"

definition Polygon_length :: "Polygon \<Rightarrow> error + real" where
  "Polygon_length p =
     (case Polygon_toSegments p of Inl e \<Rightarrow> Inl e | Inr segments \<Rightarrow> Inr (sum_lengths segments))"


definition getArea :: "Circle \<Rightarrow> real" where
  "getArea c = PI * PI * radius c"

definition getCircumference :: "Circle \<Rightarrow> real" where
  "getCircumference c = 2 * PI * radius c"

section \<open>Polar coordinates\<close>

record Polar =
  r_of :: real
  phi :: real

definition cartesianToPolar :: "real \<Rightarrow> real \<Rightarrow> Polar option" where
  "cartesianToPolar x y =
     (if x = 0
      then Some \<lparr>r_of = plain 0 0 x y, phi = (if y > 0 then PI / 2 else PI / 2 * 3)\<rparr>
      else (case divide_num y x of
              None \<Rightarrow> None
            | Some q \<Rightarrow>
                (let phi0 = arctan q;
                     phi1 = (if x < 0 then phi0 + PI else phi0)
                 in Some \<lparr>r_of = plain 0 0 x y, phi = phi1\<rparr>)))"

section \<open>Collision and Intersection\<close>

definition Collision_vertices :: "Vertex \<Rightarrow> Vertex \<Rightarrow> bool" where
  "Collision_vertices v1 v2 \<longleftrightarrow> vx v1 = vx v2 \<and> vy v1 = vy v2"


text \<open>
  The result of \<open>Intersection.segments\<close>. The parallel branch returns an object without
  \<open>t\<close> and \<open>u\<close> (\<open>None\<close>) and with \<open>vertex: null\<close> (\<open>None\<close>).
\<close>

record SegmentsResult =
  parallel :: bool
  vertex :: "Vertex option"
  intersect :: bool
  t_of :: "real option"
  u_of :: "real option"

definition tNom :: "Segment \<Rightarrow> Segment \<Rightarrow> real" where
  "tNom s1 s2 =
     (vx (start s1) - vx (start s2)) * (vy (start s2) - vy (endv s2))
     - (vy (start s1) - vy (start s2)) * (vx (start s2) - vx (endv s2))"

definition uNom :: "Segment \<Rightarrow> Segment \<Rightarrow> real" where
  "uNom s1 s2 =
     - ((vx (start s1) - vx (endv s1)) * (vy (start s1) - vy (start s2))
        - (vy (start s1) - vy (endv s1)) * (vx (start s1) - vx (start s2)))"

definition tDen :: "Segment \<Rightarrow> Segment \<Rightarrow> real" where
  "tDen s1 s2 =
     (vx (start s1) - vx (endv s1)) * (vy (start s2) - vy (endv s2))
     - (vy (start s1) - vy (endv s1)) * (vx (start s2) - vx (endv s2))"

definition segments :: "Segment \<Rightarrow> Segment \<Rightarrow> SegmentsResult option" where
  "segments s1 s2 =
     (if tDen s1 s2 = 0
      then Some \<lparr>parallel = True, vertex = None, intersect = False, t_of = None, u_of = None\<rparr>
      else (case divide_num (tNom s1 s2) (tDen s1 s2) of
              None \<Rightarrow> None
            | Some t \<Rightarrow>
                (case divide_num (uNom s1 s2) (tDen s1 s2) of
                   None \<Rightarrow> None
                 | Some u \<Rightarrow>
                     Some \<lparr>parallel = False,
                           vertex = Some \<lparr>vx = vx (start s1) + t * (vx (endv s1) - vx (start s1)),
                                          vy = vy (start s1) + t * (vy (endv s1) - vy (start s1))\<rparr>,
                           intersect = between t 0 1 \<and> between u 0 1,
                           t_of = Some t,
                           u_of = Some u\<rparr>)))"

definition Collision_segments :: "Segment \<Rightarrow> Segment \<Rightarrow> bool option" where
  "Collision_segments s1 s2 = map_option intersect (segments s1 s2)"

text \<open>
  The endpoints of a segment, as a set of points. Two segments share exactly one endpoint
  when these sets meet in a single point.
\<close>

definition endpoints :: "Segment \<Rightarrow> Vertex set" where
  "endpoints s = {start s, endv s}"

text \<open>
  The open chain over a vertex list: the segment from each vertex to the next one, in
  order.
\<close>

definition chain :: "Vertex list \<Rightarrow> Segment list" where
  "chain vs = map (\<lambda>i. \<lparr>start = vs ! i, endv = vs ! (i + 1)\<rparr>) [0..<length vs - 1]"

text \<open>
  The four vertices (0,0), (2,0), (2,2), (0,2), as
  \<open>new PolyLine().add(0, 0).add(2, 0).add(2, 2).add(0, 2)\<close> builds them.
\<close>

definition square :: "Vertex list" where
  "square = [\<lparr>vx = 0, vy = 0\<rparr>, \<lparr>vx = 2, vy = 0\<rparr>, \<lparr>vx = 2, vy = 2\<rparr>, \<lparr>vx = 0, vy = 2\<rparr>]"

section \<open>Binary64 numbers\<close>

text \<open>
  A binary64 value is a finite number \<open>Fin x\<close>, an infinity or NaN. The two zeros are one
  value, \<open>Fin 0\<close>: \<open>==\<close>, \<open>>=\<close> and \<open><=\<close> do not tell them apart, and they differ only in
  the sign of a quotient by zero, which \<open>ddiv\<close> therefore leaves undefined (\<open>None\<close>);
  the functions modelled here divide only by a number that \<open>==\<close> has found different
  from 0.

  Every arithmetic operation computes the exact result and rounds it: \<open>rnd\<close> rounds to the
  nearest multiple of the unit in the last place, \<open>2 ^ (e - 52)\<close> for a result in
  \<open>[2 ^ e, 2 ^ (e + 1))\<close> and \<open>2 ^ (- 1074)\<close> below \<open>2 ^ (- 1022)\<close>, a tie going to the even
  multiple (\<open>rne\<close>); a rounded result of magnitude \<open>2 ^ 1024\<close> or more is an infinity.
\<close>

datatype double = Fin real | PInf | NInf | NaN

definition rne :: "real \<Rightarrow> int" where
  "rne q = (let f = \<lfloor>q\<rfloor>; d = q - of_int f
            in if d < 1 / 2 then f else if 1 / 2 < d then f + 1 else if even f then f else f + 1)"

definition ulp_exp :: "real \<Rightarrow> int" where
  "ulp_exp r = max \<lfloor>log 2 \<bar>r\<bar>\<rfloor> (- 1022) - 52"

definition rnd :: "real \<Rightarrow> real" where
  "rnd r = (if r = 0 then 0
            else of_int (rne (r / 2 powr of_int (ulp_exp r))) * 2 powr of_int (ulp_exp r))"

definition overflow64 :: real where
  "overflow64 = 2 ^ 1024"

definition round64 :: "real \<Rightarrow> double" where
  "round64 r = (let v = rnd r
                in if overflow64 \<le> v then PInf else if v \<le> - overflow64 then NInf else Fin v)"

fun dneg :: "double \<Rightarrow> double" where
  "dneg (Fin x) = Fin (- x)"
| "dneg PInf = NInf"
| "dneg NInf = PInf"
| "dneg NaN = NaN"

fun dadd :: "double \<Rightarrow> double \<Rightarrow> double" where
  "dadd NaN b = NaN"
| "dadd a NaN = NaN"
| "dadd (Fin x) (Fin y) = round64 (x + y)"
| "dadd PInf NInf = NaN"
| "dadd NInf PInf = NaN"
| "dadd PInf b = PInf"
| "dadd a PInf = PInf"
| "dadd NInf b = NInf"
| "dadd a NInf = NInf"

definition dsub :: "double \<Rightarrow> double \<Rightarrow> double" where
  "dsub a b = dadd a (dneg b)"

fun dsign :: "double \<Rightarrow> int" where
  "dsign (Fin x) = (if x = 0 then 0 else if 0 < x then 1 else - 1)"
| "dsign PInf = 1"
| "dsign NInf = - 1"
| "dsign NaN = 0"

fun dmul :: "double \<Rightarrow> double \<Rightarrow> double" where
  "dmul NaN b = NaN"
| "dmul a NaN = NaN"
| "dmul (Fin x) (Fin y) = round64 (x * y)"
| "dmul a b = (if dsign a * dsign b = 0 then NaN else if 0 < dsign a * dsign b then PInf else NInf)"

fun ddiv :: "double \<Rightarrow> double \<Rightarrow> double option" where
  "ddiv NaN b = Some NaN"
| "ddiv a NaN = Some NaN"
| "ddiv (Fin x) (Fin y) =
     (if y = 0 then (if x = 0 then Some NaN else None) else Some (round64 (x / y)))"
| "ddiv (Fin x) b = Some (Fin 0)"
| "ddiv a (Fin y) =
     (if y = 0 then None else Some (if 0 < dsign a * dsign (Fin y) then PInf else NInf))"
| "ddiv a b = Some NaN"

fun dsqrt :: "double \<Rightarrow> double" where
  "dsqrt (Fin x) = (if x < 0 then NaN else round64 (sqrt x))"
| "dsqrt PInf = PInf"
| "dsqrt NInf = NaN"
| "dsqrt NaN = NaN"

definition deq :: "double \<Rightarrow> double \<Rightarrow> bool" where
  "deq a b \<longleftrightarrow> a \<noteq> NaN \<and> a = b"

fun dle :: "double \<Rightarrow> double \<Rightarrow> bool" where
  "dle NaN b = False"
| "dle a NaN = False"
| "dle (Fin x) (Fin y) = (x \<le> y)"
| "dle NInf b = True"
| "dle a PInf = True"
| "dle a b = False"

definition dge :: "double \<Rightarrow> double \<Rightarrow> bool" where
  "dge a b = dle b a"

text \<open>The shapes and the functions of the kernel over binary64 values.\<close>

record Vertex64 =
  x64 :: double
  y64 :: double

record Segment64 =
  start64 :: Vertex64
  end64 :: Vertex64

definition Segment64_new :: "double \<Rightarrow> double \<Rightarrow> double \<Rightarrow> double \<Rightarrow> Segment64" where
  "Segment64_new x1 y1 x2 y2 = \<lparr>start64 = \<lparr>x64 = x1, y64 = y1\<rparr>, end64 = \<lparr>x64 = x2, y64 = y2\<rparr>\<rparr>"

record Circle64 =
  cx64 :: double
  cy64 :: double
  radius64 :: double

definition between64 :: "double \<Rightarrow> double \<Rightarrow> double \<Rightarrow> bool" where
  "between64 num mn mx \<longleftrightarrow> dge num mn \<and> dle num mx"

definition plain64 :: "double \<Rightarrow> double \<Rightarrow> double \<Rightarrow> double \<Rightarrow> double" where
  "plain64 x1 y1 x2 y2 =
     (let dx = dsub x1 x2; dy = dsub y1 y2 in dsqrt (dadd (dmul dx dx) (dmul dy dy)))"

definition Distance_circles64 :: "Circle64 \<Rightarrow> Circle64 \<Rightarrow> double" where
  "Distance_circles64 c1 c2 =
     dsub (dsub (plain64 (cx64 c1) (cy64 c1) (cx64 c2) (cy64 c2)) (radius64 c1)) (radius64 c2)"

record SegmentsResult64 =
  parallel64 :: bool
  vertex64 :: "Vertex64 option"
  intersect64 :: bool
  t64 :: "double option"
  u64 :: "double option"

definition tNom64 :: "Segment64 \<Rightarrow> Segment64 \<Rightarrow> double" where
  "tNom64 s1 s2 =
     dsub (dmul (dsub (x64 (start64 s1)) (x64 (start64 s2))) (dsub (y64 (start64 s2)) (y64 (end64 s2))))
          (dmul (dsub (y64 (start64 s1)) (y64 (start64 s2))) (dsub (x64 (start64 s2)) (x64 (end64 s2))))"

definition uNom64 :: "Segment64 \<Rightarrow> Segment64 \<Rightarrow> double" where
  "uNom64 s1 s2 =
     dneg (dsub (dmul (dsub (x64 (start64 s1)) (x64 (end64 s1))) (dsub (y64 (start64 s1)) (y64 (start64 s2))))
                (dmul (dsub (y64 (start64 s1)) (y64 (end64 s1))) (dsub (x64 (start64 s1)) (x64 (start64 s2)))))"

definition tDen64 :: "Segment64 \<Rightarrow> Segment64 \<Rightarrow> double" where
  "tDen64 s1 s2 =
     dsub (dmul (dsub (x64 (start64 s1)) (x64 (end64 s1))) (dsub (y64 (start64 s2)) (y64 (end64 s2))))
          (dmul (dsub (y64 (start64 s1)) (y64 (end64 s1))) (dsub (x64 (start64 s2)) (x64 (end64 s2))))"

definition segments64 :: "Segment64 \<Rightarrow> Segment64 \<Rightarrow> SegmentsResult64 option" where
  "segments64 s1 s2 =
     (if deq (tDen64 s1 s2) (Fin 0)
      then Some \<lparr>parallel64 = True, vertex64 = None, intersect64 = False, t64 = None, u64 = None\<rparr>
      else (case ddiv (tNom64 s1 s2) (tDen64 s1 s2) of
              None \<Rightarrow> None
            | Some t \<Rightarrow>
                (case ddiv (uNom64 s1 s2) (tDen64 s1 s2) of
                   None \<Rightarrow> None
                 | Some u \<Rightarrow>
                     Some \<lparr>parallel64 = False,
                           vertex64 = Some
                             \<lparr>x64 = dadd (x64 (start64 s1))
                                      (dmul t (dsub (x64 (end64 s1)) (x64 (start64 s1)))),
                              y64 = dadd (y64 (start64 s1))
                                      (dmul t (dsub (y64 (end64 s1)) (y64 (start64 s1))))\<rparr>,
                           intersect64 = (between64 t (Fin 0) (Fin 1) \<and> between64 u (Fin 0) (Fin 1)),
                           t64 = Some t,
                           u64 = Some u\<rparr>)))"

definition endpoints64 :: "Segment64 \<Rightarrow> Vertex64 set" where
  "endpoints64 s = {start64 s, end64 s}"

text \<open>
  Half a unit in the last place of the smallest binary64 numbers, the absolute part of the
  rounding error.
\<close>

definition eta64 :: real where
  "eta64 = 2 powr (- 1075)"

text \<open>Finite values, finite circles and values that are not negative.\<close>

fun is_fin :: "double \<Rightarrow> bool" where
  "is_fin (Fin x) = True"
| "is_fin a = False"

definition finite_circle :: "Circle64 \<Rightarrow> bool" where
  "finite_circle c \<longleftrightarrow> is_fin (cx64 c) \<and> is_fin (cy64 c) \<and> is_fin (radius64 c)"

fun nonneg64 :: "double \<Rightarrow> bool" where
  "nonneg64 (Fin z) = (0 \<le> z)"
| "nonneg64 PInf = True"
| "nonneg64 a = False"

section \<open>Basic facts\<close>

lemma divide_num_Some: "b \<noteq> 0 \<Longrightarrow> divide_num a b = Some (a / b)"
  by (simp add: divide_num_def)

lemma plain_eq: "plain x1 y1 x2 y2 = sqrt ((x1 - x2)\<^sup>2 + (y1 - y2)\<^sup>2)"
  by (simp add: plain_def Let_def power2_eq_square)

lemma plain_same: "plain a b a b = 0"
  by (simp add: plain_eq)

section \<open>Intersection.segments\<close>

lemma tDen_direction:
  "tDen s1 s2 =
     (vx (endv s1) - vx (start s1)) * (vy (endv s2) - vy (start s2))
     - (vy (endv s1) - vy (start s1)) * (vx (endv s2) - vx (start s2))"
  by (simp add: tDen_def algebra_simps)

text \<open>
  C1: for every pair of segments, the denominator of \<open>Intersection.segments\<close> is the
  determinant of the two direction vectors. When it is 0 the result is
  \<open>parallel = true, vertex = null, intersect = false\<close>, whatever else holds of the segments
  (there is no check for collinear overlap). Otherwise no division by zero happens,
  \<open>t = tNom / den\<close>, \<open>u = uNom / den\<close>, the vertex is \<open>s1.start + t * (s1.end - s1.start)\<close>
  also when \<open>intersect\<close> is false, and \<open>intersect\<close> is true exactly when both \<open>t\<close> and
  \<open>u\<close> lie in the closed interval from 0 to 1.
\<close>

theorem segments_spec:
  "tDen s1 s2 =
     (vx (endv s1) - vx (start s1)) * (vy (endv s2) - vy (start s2))
     - (vy (endv s1) - vy (start s1)) * (vx (endv s2) - vx (start s2))
   \<and> segments s1 s2 =
     Some (if tDen s1 s2 = 0
           then \<lparr>parallel = True, vertex = None, intersect = False, t_of = None, u_of = None\<rparr>
           else \<lparr>parallel = False,
                 vertex = Some \<lparr>vx = vx (start s1) + tNom s1 s2 / tDen s1 s2 * (vx (endv s1) - vx (start s1)),
                                vy = vy (start s1) + tNom s1 s2 / tDen s1 s2 * (vy (endv s1) - vy (start s1))\<rparr>,
                 intersect = (0 \<le> tNom s1 s2 / tDen s1 s2 \<and> tNom s1 s2 / tDen s1 s2 \<le> 1
                              \<and> 0 \<le> uNom s1 s2 / tDen s1 s2 \<and> uNom s1 s2 / tDen s1 s2 \<le> 1),
                 t_of = Some (tNom s1 s2 / tDen s1 s2),
                 u_of = Some (uNom s1 s2 / tDen s1 s2)\<rparr>)"
proof (rule conjI)
  show "tDen s1 s2 =
     (vx (endv s1) - vx (start s1)) * (vy (endv s2) - vy (start s2))
     - (vy (endv s1) - vy (start s1)) * (vx (endv s2) - vx (start s2))"
    by (rule tDen_direction)
next
  show "segments s1 s2 =
     Some (if tDen s1 s2 = 0
           then \<lparr>parallel = True, vertex = None, intersect = False, t_of = None, u_of = None\<rparr>
           else \<lparr>parallel = False,
                 vertex = Some \<lparr>vx = vx (start s1) + tNom s1 s2 / tDen s1 s2 * (vx (endv s1) - vx (start s1)),
                                vy = vy (start s1) + tNom s1 s2 / tDen s1 s2 * (vy (endv s1) - vy (start s1))\<rparr>,
                 intersect = (0 \<le> tNom s1 s2 / tDen s1 s2 \<and> tNom s1 s2 / tDen s1 s2 \<le> 1
                              \<and> 0 \<le> uNom s1 s2 / tDen s1 s2 \<and> uNom s1 s2 / tDen s1 s2 \<le> 1),
                 t_of = Some (tNom s1 s2 / tDen s1 s2),
                 u_of = Some (uNom s1 s2 / tDen s1 s2)\<rparr>)"
  proof (cases "tDen s1 s2 = 0")
    case True
    then show ?thesis by (simp add: segments_def)
  next
    case False
    then show ?thesis
      by (simp add: segments_def divide_num_Some between_def)
  qed
qed

text \<open>
  Three runs of the code: collinear segments that overlap are reported parallel and not
  intersecting; the diagonals of a square cross in the middle; two segments whose lines
  cross outside of both get the crossing point and \<open>intersect = false\<close>.
\<close>

lemma segments_collinear_overlap:
  "segments (Segment_new 0 0 2 0) (Segment_new 1 0 3 0) =
     Some \<lparr>parallel = True, vertex = None, intersect = False, t_of = None, u_of = None\<rparr>"
  by (simp add: segments_def tDen_def Segment_new_def)

lemma segments_diagonals:
  "segments (Segment_new 0 0 2 2) (Segment_new 0 2 2 0) =
     Some \<lparr>parallel = False, vertex = Some \<lparr>vx = 1, vy = 1\<rparr>, intersect = True,
           t_of = Some (1 / 2), u_of = Some (1 / 2)\<rparr>"
  by (simp add: segments_def tDen_def tNom_def uNom_def Segment_new_def divide_num_def between_def)

lemma segments_extension_point:
  "segments (Segment_new 0 0 1 0) (Segment_new 2 1 2 2) =
     Some \<lparr>parallel = False, vertex = Some \<lparr>vx = 2, vy = 0\<rparr>, intersect = False,
           t_of = Some 2, u_of = Some (- 1)\<rparr>"
  by (simp add: segments_def tDen_def tNom_def uNom_def Segment_new_def divide_num_def between_def)

section \<open>Circle\<close>

lemma getCircumference_formula: "getCircumference c = 2 * pi * radius c"
  by (simp add: getCircumference_def PI_def)

lemma getArea_correct_iff: "getArea c = pi * (radius c)\<^sup>2 \<longleftrightarrow> radius c = 0 \<or> radius c = pi"
  by (auto simp add: getArea_def PI_def power2_eq_square)

text \<open>
  C3: \<open>Circle.getArea\<close> should return \<open>pi * r^2\<close>. The code multiplies \<open>PI * PI * radius\<close>:
  on the circle of radius 1 it returns \<open>pi * pi\<close>, which is not \<open>pi * 1^2\<close>.
\<close>

theorem getArea_radius_one:
  "getArea \<lparr>cx = 0, cy = 0, radius = 1\<rparr> = pi * pi
   \<and> getArea \<lparr>cx = 0, cy = 0, radius = 1\<rparr> \<noteq> pi * 1\<^sup>2"
proof -
  have "pi \<noteq> 1" using pi_ge_two by simp
  then show ?thesis by (simp add: getArea_def PI_def)
qed

section \<open>Distance and Collision\<close>



section \<open>Polar coordinates\<close>

text \<open>
  C9: \<open>cartesianToPolar\<close> never divides by zero (it returns a result on every input), and
  for \<open>x = 0\<close> its angle is \<open>pi / 2\<close> when \<open>y > 0\<close> and \<open>3 * pi / 2\<close> otherwise: at (0, 5) it
  is \<open>pi / 2\<close>, at (0, -5) it is \<open>3 * pi / 2\<close>, and at (0, 0) it is \<open>3 * pi / 2\<close>.
\<close>

theorem cartesianToPolar_x_zero:
  "cartesianToPolar x y \<noteq> None
   \<and> map_option phi (cartesianToPolar 0 y) = Some (if y > 0 then pi / 2 else 3 * pi / 2)
   \<and> map_option phi (cartesianToPolar 0 5) = Some (pi / 2)
   \<and> map_option phi (cartesianToPolar 0 (- 5)) = Some (3 * pi / 2)
   \<and> map_option phi (cartesianToPolar 0 0) = Some (3 * pi / 2)"
  by (simp add: cartesianToPolar_def divide_num_def PI_def Let_def)

section \<open>PolyLine and Polygon\<close>

text \<open>
  C10: for every pair of numbers of which one is 0, the constructors \<open>PolyLine(x, y)\<close> and
  \<open>Polygon(x, y)\<close> make an empty vertex list; with two numbers that are not 0 they make
  the list of the one vertex \<open>(x, y)\<close>.
\<close>

theorem constructor_truthiness_guard:
  "vertices (PolyLine_new (Some x) (Some y)) = (if x = 0 \<or> y = 0 then [] else [\<lparr>vx = x, vy = y\<rparr>])
   \<and> vertices (body (Polygon_new (Some x) (Some y))) = (if x = 0 \<or> y = 0 then [] else [\<lparr>vx = x, vy = y\<rparr>])"
  by (simp add: PolyLine_new_def Polygon_new_def truthy_def)

subsection \<open>The loop of toSegments\<close>

lemma Segment_new_vertices: "Segment_new (vx v1) (vy v1) (vx v2) (vy v2) = \<lparr>start = v1, endv = v2\<rparr>"
  by (simp add: Segment_new_def)

lemma toSegments_loop_eq:
  "toSegments_loop vs i acc =
     acc @ map (\<lambda>j. \<lparr>start = vs ! j, endv = vs ! (j + 1)\<rparr>) [i..<length vs - 1]"
proof (induction vs i acc rule: toSegments_loop.induct)
  case (1 vs i segs)
  show ?case
  proof (cases "int i < int (length vs) - 1")
    case True
    then have lt: "i < length vs - 1" by linarith
    from True have "toSegments_loop vs i segs =
        toSegments_loop vs (i + 1) (segs @ [\<lparr>start = vs ! i, endv = vs ! (i + 1)\<rparr>])"
      by (subst toSegments_loop.simps) (simp add: Let_def Segment_new_vertices)
    also have "\<dots> = (segs @ [\<lparr>start = vs ! i, endv = vs ! (i + 1)\<rparr>])
        @ map (\<lambda>j. \<lparr>start = vs ! j, endv = vs ! (j + 1)\<rparr>) [i + 1..<length vs - 1]"
      using "1.IH" [OF True refl refl] by (simp add: Segment_new_vertices)
    finally show ?thesis using lt by (simp add: upt_conv_Cons)
  next
    case False
    then have "\<not> i < length vs - 1" by linarith
    then have "[i..<length vs - 1] = []" by simp
    moreover from False have "toSegments_loop vs i segs = segs"
      by (subst toSegments_loop.simps) simp
    ultimately show ?thesis by simp
  qed
qed

lemma PolyLine_toSegments_chain: "PolyLine_toSegments pl = chain (vertices pl)"
  by (simp add: PolyLine_toSegments_def toSegments_loop_eq chain_def)

lemma foldl_add_lengths:
  "foldl (\<lambda>len s. len + f s) a xs = a + sum_list (map f xs)"
  by (induction xs arbitrary: a) (simp_all add: add.assoc)

lemma sum_lengths_sum_list: "sum_lengths segs = sum_list (map Segment_length segs)"
  by (simp add: sum_lengths_def foldl_add_lengths)

lemma sum_lengths_chain:
  "sum_lengths (chain vs) = (\<Sum>i<length vs - 1. Distance_vertices (vs ! i) (vs ! (i + 1)))"
proof -
  have "sum_lengths (chain vs) =
      sum_list (map (\<lambda>i. Distance_vertices (vs ! i) (vs ! (i + 1))) [0..<length vs - 1])"
    by (simp add: sum_lengths_sum_list chain_def comp_def Segment_length_def)
  also have "\<dots> = (\<Sum>i<length vs - 1. Distance_vertices (vs ! i) (vs ! (i + 1)))"
    by (simp add: interv_sum_list_conv_sum_set_nat atLeast0LessThan)
  finally show ?thesis .
qed

lemma square_built:
  "PolyLine_add (PolyLine_add (PolyLine_add (PolyLine_add (PolyLine_new None None) 0 0) 2 0) 2 2) 0 2
     = \<lparr>vertices = square\<rparr>"
  by (simp add: PolyLine_add_def PolyLine_new_def truthy_def square_def)

lemma chain_square:
  "chain square = [Segment_new 0 0 2 0, Segment_new 2 0 2 2, Segment_new 2 2 0 2]"
  by (simp add: chain_def square_def Segment_new_def upt_rec_numeral)

lemma plain_axis: "plain 0 0 2 0 = 2" "plain 2 0 2 2 = 2" "plain 2 2 0 2 = 2" "plain 0 0 0 2 = 2"
  by (simp_all add: plain_def)

lemma lengths_square:
  "Segment_length (Segment_new 0 0 2 0) = 2" "Segment_length (Segment_new 2 0 2 2) = 2"
  "Segment_length (Segment_new 2 2 0 2) = 2" "Segment_length (Segment_new 0 0 0 2) = 2"
  by (simp_all add: Segment_length_def Distance_vertices_def Segment_new_def plain_axis)

text \<open>
  C5: for every PolyLine, \<open>toSegments\<close> yields the segments from each vertex to the next
  one and nothing else (no closing edge): \<open>length - 1\<close> of them, none when there are fewer
  than 2 vertices; \<open>length()\<close> is the sum of their lengths. The PolyLine with vertices
  (0,0), (2,0), (2,2), (0,2) yields exactly 3 segments and has length 6.
\<close>

theorem PolyLine_segments:
  "PolyLine_toSegments pl =
     map (\<lambda>i. \<lparr>start = vertices pl ! i, endv = vertices pl ! (i + 1)\<rparr>) [0..<length (vertices pl) - 1]
   \<and> length (PolyLine_toSegments pl) = (if length (vertices pl) < 2 then 0 else length (vertices pl) - 1)
   \<and> PolyLine_length pl =
       (\<Sum>i<length (vertices pl) - 1. Distance_vertices (vertices pl ! i) (vertices pl ! (i + 1)))
   \<and> PolyLine_toSegments
        (PolyLine_add (PolyLine_add (PolyLine_add (PolyLine_add (PolyLine_new None None) 0 0) 2 0) 2 2) 0 2)
       = [Segment_new 0 0 2 0, Segment_new 2 0 2 2, Segment_new 2 2 0 2]
   \<and> PolyLine_length
        (PolyLine_add (PolyLine_add (PolyLine_add (PolyLine_add (PolyLine_new None None) 0 0) 2 0) 2 2) 0 2)
       = 6"
proof (intro conjI)
  show "PolyLine_toSegments pl =
     map (\<lambda>i. \<lparr>start = vertices pl ! i, endv = vertices pl ! (i + 1)\<rparr>) [0..<length (vertices pl) - 1]"
    by (simp add: PolyLine_toSegments_chain chain_def)
  show "length (PolyLine_toSegments pl) = (if length (vertices pl) < 2 then 0 else length (vertices pl) - 1)"
    by (simp add: PolyLine_toSegments_chain chain_def)
  show "PolyLine_length pl =
       (\<Sum>i<length (vertices pl) - 1. Distance_vertices (vertices pl ! i) (vertices pl ! (i + 1)))"
    by (simp add: PolyLine_length_def PolyLine_toSegments_chain sum_lengths_chain)
  show "PolyLine_toSegments
        (PolyLine_add (PolyLine_add (PolyLine_add (PolyLine_add (PolyLine_new None None) 0 0) 2 0) 2 2) 0 2)
       = [Segment_new 0 0 2 0, Segment_new 2 0 2 2, Segment_new 2 2 0 2]"
    by (simp add: square_built PolyLine_toSegments_chain chain_square)
  show "PolyLine_length
        (PolyLine_add (PolyLine_add (PolyLine_add (PolyLine_add (PolyLine_new None None) 0 0) 2 0) 2 2) 0 2)
       = 6"
    by (simp add: square_built PolyLine_length_def PolyLine_toSegments_chain chain_square
        sum_lengths_sum_list lengths_square)
qed

subsection \<open>Polygon\<close>

lemma square_polygon_built:
  "Polygon_add (Polygon_add (Polygon_add (Polygon_add (Polygon_new None None) 0 0) 2 0) 2 2) 0 2
     = \<lparr>body = \<lparr>vertices = square\<rparr>\<rparr>"
  by (simp add: Polygon_add_def Polygon_new_def PolyLine_new_def truthy_def square_def)

lemma Polygon_toSegments_empty:
  "vertices (body p) = [] \<Longrightarrow> Polygon_toSegments p = Inl TypeError"
  by (simp add: Polygon_toSegments_def Polygon_toVertices_def PolyLine_toVertices_def index_def)

lemma Polygon_toSegments_nonempty:
  assumes "vertices (body p) \<noteq> []"
  shows "Polygon_toSegments p =
    Inr (chain (vertices (body p))
         @ [\<lparr>start = vertices (body p) ! 0, endv = vertices (body p) ! (length (vertices (body p)) - 1)\<rparr>])"
proof -
  let ?vs = "vertices (body p)"
  from assms have n: "0 < length ?vs" by simp
  then have first: "index ?vs 0 = Some (?vs ! 0)" by (simp add: index_def)
  from n have "nat (int (length ?vs) - 1) = length ?vs - 1" by simp
  with n have lst: "index ?vs (int (length ?vs) - 1) = Some (?vs ! (length ?vs - 1))"
    by (simp add: index_def)
  show ?thesis
    by (simp add: Polygon_toSegments_def Polygon_toVertices_def PolyLine_toVertices_def
        first lst PolyLine_toSegments_chain Segment_new_vertices)
qed

text \<open>
  C4, as stated, fails on the direction of the closing segment. For the Polygon with
  vertices (0,0), (2,0), (2,2), (0,2) the code builds \<open>new Segment(vs.x, vs.y, ve.x, ve.y)\<close>
  with \<open>vs\<close> the first vertex and \<open>ve\<close> the last one: the closing segment starts at (0,0)
  and ends at (0,2), and no segment of the result runs from (0,2) to (0,0).
\<close>

theorem Polygon_closing_direction_counterexample:
  "Polygon_toSegments
     (Polygon_add (Polygon_add (Polygon_add (Polygon_add (Polygon_new None None) 0 0) 2 0) 2 2) 0 2)
     = Inr [Segment_new 0 0 2 0, Segment_new 2 0 2 2, Segment_new 2 2 0 2, Segment_new 0 0 0 2]
   \<and> start (Segment_new 0 0 0 2) = \<lparr>vx = 0, vy = 0\<rparr>
   \<and> endv (Segment_new 0 0 0 2) = \<lparr>vx = 0, vy = 2\<rparr>
   \<and> Segment_new 0 2 0 0
       \<notin> set [Segment_new 0 0 2 0, Segment_new 2 0 2 2, Segment_new 2 2 0 2, Segment_new 0 0 0 2]"
proof -
  have "vertices (body \<lparr>body = \<lparr>vertices = square\<rparr>\<rparr>) \<noteq> []" by (simp add: square_def)
  from Polygon_toSegments_nonempty [OF this]
  have "Polygon_toSegments \<lparr>body = \<lparr>vertices = square\<rparr>\<rparr> =
      Inr (chain square @ [\<lparr>start = square ! 0, endv = square ! (length square - 1)\<rparr>])"
    by simp
  moreover have "\<lparr>start = square ! 0, endv = square ! (length square - 1)\<rparr> = Segment_new 0 0 0 2"
    by (simp add: square_def Segment_new_def)
  ultimately show ?thesis
    by (simp add: square_polygon_built chain_square) (simp add: Segment_new_def)
qed

text \<open>
  C4, amended: for every Polygon with \<open>n \<ge> 1\<close> vertices, \<open>toSegments\<close> yields the
  \<open>n - 1\<close> segments of the open chain and then one closing segment that starts at the
  first vertex and ends at the last one (\<open>n\<close> segments in all), and \<open>length()\<close> is the
  sum of the lengths of all of them, the closing one included. The Polygon with vertices
  (0,0), (2,0), (2,2), (0,2) yields exactly 4 segments, the closing one from (0,0) to
  (0,2), and has length 8.
\<close>

theorem Polygon_segments:
  assumes "vertices (body p) \<noteq> []"
  shows "Polygon_toSegments p =
      Inr (map (\<lambda>i. \<lparr>start = vertices (body p) ! i, endv = vertices (body p) ! (i + 1)\<rparr>)
             [0..<length (vertices (body p)) - 1]
           @ [\<lparr>start = vertices (body p) ! 0,
               endv = vertices (body p) ! (length (vertices (body p)) - 1)\<rparr>])
    \<and> (\<exists>segs. Polygon_toSegments p = Inr segs \<and> length segs = length (vertices (body p)))
    \<and> Polygon_length p =
        Inr ((\<Sum>i<length (vertices (body p)) - 1.
                Distance_vertices (vertices (body p) ! i) (vertices (body p) ! (i + 1)))
             + Distance_vertices (vertices (body p) ! 0)
                 (vertices (body p) ! (length (vertices (body p)) - 1)))
    \<and> Polygon_toSegments
        (Polygon_add (Polygon_add (Polygon_add (Polygon_add (Polygon_new None None) 0 0) 2 0) 2 2) 0 2)
        = Inr [Segment_new 0 0 2 0, Segment_new 2 0 2 2, Segment_new 2 2 0 2, Segment_new 0 0 0 2]
    \<and> Polygon_length
        (Polygon_add (Polygon_add (Polygon_add (Polygon_add (Polygon_new None None) 0 0) 2 0) 2 2) 0 2)
        = Inr 8"
proof -
  let ?vs = "vertices (body p)"
  let ?closing = "\<lparr>start = ?vs ! 0, endv = ?vs ! (length ?vs - 1)\<rparr>"
  have segs: "Polygon_toSegments p = Inr (chain ?vs @ [?closing])"
    by (rule Polygon_toSegments_nonempty [OF assms])
  from assms have len: "length (chain ?vs @ [?closing]) = length ?vs"
    by (simp add: chain_def)
  have total: "Polygon_length p =
      Inr ((\<Sum>i<length ?vs - 1. Distance_vertices (?vs ! i) (?vs ! (i + 1)))
           + Distance_vertices (?vs ! 0) (?vs ! (length ?vs - 1)))"
    by (simp add: Polygon_length_def segs sum_lengths_sum_list Segment_length_def
        sum_lengths_chain [unfolded sum_lengths_sum_list])
  have sq: "vertices (body \<lparr>body = \<lparr>vertices = square\<rparr>\<rparr>) \<noteq> []" by (simp add: square_def)
  have closing_sq: "\<lparr>start = square ! 0, endv = square ! (length square - 1)\<rparr> = Segment_new 0 0 0 2"
    by (simp add: square_def Segment_new_def)
  have sq_segs: "Polygon_toSegments \<lparr>body = \<lparr>vertices = square\<rparr>\<rparr> =
      Inr [Segment_new 0 0 2 0, Segment_new 2 0 2 2, Segment_new 2 2 0 2, Segment_new 0 0 0 2]"
    using Polygon_toSegments_nonempty [OF sq] closing_sq by (simp add: chain_square)
  have sq_len: "Polygon_length \<lparr>body = \<lparr>vertices = square\<rparr>\<rparr> = Inr 8"
    by (simp add: Polygon_length_def sq_segs sum_lengths_sum_list lengths_square)
  from segs len have ex: "\<exists>segs. Polygon_toSegments p = Inr segs \<and> length segs = length ?vs"
    by blast
  from segs have first: "Polygon_toSegments p =
      Inr (map (\<lambda>i. \<lparr>start = ?vs ! i, endv = ?vs ! (i + 1)\<rparr>) [0..<length ?vs - 1] @ [?closing])"
    by (simp add: chain_def)
  show ?thesis
    unfolding square_polygon_built using first ex total sq_segs sq_len by blast
qed

theorem Polygon_segments_witness:
  "vertices (body \<lparr>body = \<lparr>vertices = [\<lparr>vx = 0, vy = 0\<rparr>, \<lparr>vx = 3, vy = 4\<rparr>]\<rparr>\<rparr>) \<noteq> []
   \<and> Polygon_toSegments \<lparr>body = \<lparr>vertices = [\<lparr>vx = 0, vy = 0\<rparr>, \<lparr>vx = 3, vy = 4\<rparr>]\<rparr>\<rparr>
       = Inr [Segment_new 0 0 3 4, Segment_new 0 0 3 4]
   \<and> Polygon_length \<lparr>body = \<lparr>vertices = [\<lparr>vx = 0, vy = 0\<rparr>, \<lparr>vx = 3, vy = 4\<rparr>]\<rparr>\<rparr> = Inr 10"
proof -
  let ?p = "\<lparr>body = \<lparr>vertices = [\<lparr>vx = 0, vy = 0\<rparr>, \<lparr>vx = 3, vy = 4\<rparr>]\<rparr>\<rparr>"
  have h: "vertices (body ?p) \<noteq> []" by simp
  have s: "sqrt 25 = 5" using real_sqrt_abs2 [of 5] by simp
  have d: "Distance_vertices \<lparr>vx = 0, vy = 0\<rparr> \<lparr>vx = 3, vy = 4\<rparr> = 5"
    by (simp add: Distance_vertices_def plain_eq s)
  from Polygon_segments [OF h] h d show ?thesis
    by (simp add: Segment_new_def)
qed

section \<open>Binary64 arithmetic\<close>

subsection \<open>Special values\<close>

lemma ddiv_special:
  "ddiv PInf PInf = Some NaN" "ddiv NaN PInf = Some NaN" "ddiv (Fin 3) NInf = Some (Fin 0)"
  "ddiv NInf (Fin (- 2)) = Some PInf" "ddiv NaN (Fin 2) = Some NaN" "ddiv PInf NInf = Some NaN"
  "ddiv NaN (Fin 0) = Some NaN" "ddiv (Fin 0) (Fin 0) = Some NaN" "ddiv (Fin 1) (Fin 0) = None"
  "ddiv PInf (Fin 0) = None"
  by simp_all

lemma dmul_special:
  "dmul PInf (Fin 0) = NaN" "dmul (Fin 0) NInf = NaN" "dmul NInf NInf = PInf"
  "dmul (Fin (- 1)) PInf = NInf"
  by simp_all

lemma dadd_special:
  "dadd PInf (Fin 1) = PInf" "dadd (Fin 1) NInf = NInf" "dadd NInf NInf = NInf"
  "dadd PInf NInf = NaN"
  by simp_all

lemma dle_special:
  "dle PInf PInf" "dle NInf NInf" "\<not> dle PInf (Fin 3)" "\<not> dle (Fin 3) NInf" "dle (Fin 3) PInf"
  "\<not> dle PInf NInf" "dle NInf PInf"
  by simp_all

subsection \<open>Rounding\<close>

lemma rne_of_int: "rne (of_int m) = m"
  by (simp add: rne_def)

lemma rne_minus: "rne (- q) = - rne q"
proof (cases "q = of_int \<lfloor>q\<rfloor>")
  case True
  then obtain m :: int where "q = of_int m" ..
  then have "rne (- q) = rne (of_int (- m))" by simp
  also have "\<dots> = - m" by (rule rne_of_int)
  finally show ?thesis using \<open>q = of_int m\<close> by (simp add: rne_of_int)
next
  case False
  have fl: "\<lfloor>- q\<rfloor> = - \<lfloor>q\<rfloor> - 1"
    using False by (simp add: floor_minus ceiling_altdef)
  let ?f = "\<lfloor>q\<rfloor>"
  let ?d = "q - of_int ?f"
  have d: "0 < ?d" "?d < 1" using False floor_correct [of q] by linarith+
  have d': "- q - of_int (- ?f - 1) = 1 - ?d" by simp
  have ev: "even (- ?f - 1) \<longleftrightarrow> odd ?f" by simp
  show ?thesis
    unfolding rne_def Let_def fl d' ev using d by auto
qed

lemma ulp_exp_minus: "ulp_exp (- r) = ulp_exp r"
  by (simp add: ulp_exp_def)

lemma rnd_minus: "rnd (- r) = - rnd r"
  by (simp add: rnd_def ulp_exp_minus rne_minus)

lemma rnd_zero: "rnd 0 = 0"
  by (simp add: rnd_def)

lemma overflow64_gt: "2 ^ 53 < overflow64"
  by (simp add: overflow64_def)

lemma round64_minus: "round64 (- r) = dneg (round64 r)"
  using overflow64_gt by (auto simp add: round64_def rnd_minus Let_def)

lemma round64_Fin: "\<bar>rnd r\<bar> < overflow64 \<Longrightarrow> round64 r = Fin (rnd r)"
  by (auto simp add: round64_def Let_def)

lemma round64_zero: "round64 0 = Fin 0"
  using overflow64_gt by (simp add: round64_Fin rnd_zero)

lemma ulp_exp_eq:
  assumes "2 powr of_int e \<le> \<bar>r\<bar>" and "\<bar>r\<bar> < 2 powr of_int (e + 1)"
  shows "ulp_exp r = max e (- 1022) - 52"
proof -
  have "0 < \<bar>r\<bar>" using assms(1) by (smt (verit) powr_gt_zero)
  then have "\<lfloor>log 2 \<bar>r\<bar>\<rfloor> = e"
    using assms by (simp add: floor_log_eq_powr_iff)
  then show ?thesis by (simp add: ulp_exp_def)
qed

lemma rnd_at:
  assumes "2 powr of_int e \<le> \<bar>r\<bar>" and "\<bar>r\<bar> < 2 powr of_int (e + 1)" and "- 1022 \<le> e"
  shows "rnd r = of_int (rne (r / 2 powr of_int (e - 52))) * 2 powr of_int (e - 52)"
proof -
  have "r \<noteq> 0" using assms(1) by (smt (verit) powr_gt_zero)
  moreover have "ulp_exp r = e - 52" using ulp_exp_eq [OF assms(1,2)] assms(3) by simp
  ultimately show ?thesis by (simp add: rnd_def)
qed

lemma rnd_representable:
  assumes m: "\<bar>m\<bar> < 2 ^ 53" and k: "- 1074 \<le> k"
  shows "rnd (of_int m * 2 powr of_int k) = of_int m * 2 powr of_int k"
proof (cases "m = 0")
  case True
  then show ?thesis by (simp add: rnd_zero)
next
  case False
  let ?r = "of_int m * 2 powr of_int k :: real"
  have pos: "0 < \<bar>?r\<bar>" using False by simp
  have "\<bar>?r\<bar> = of_int \<bar>m\<bar> * 2 powr of_int k" by (simp add: abs_mult)
  also have "\<dots> < 2 ^ 53 * 2 powr of_int k"
  proof -
    have "(of_int \<bar>m\<bar> :: real) < of_int (2 ^ 53)" using m by (simp only: of_int_less_iff)
    then show ?thesis by simp
  qed
  also have "\<dots> = 2 powr of_int (k + 53)" by (simp add: powr_add)
  finally have up: "\<bar>?r\<bar> < 2 powr of_int (k + 53)" .
  have "log 2 \<bar>?r\<bar> < of_int (k + 53)"
    using up pos by (simp add: log_less_iff)
  then have "\<lfloor>log 2 \<bar>?r\<bar>\<rfloor> < k + 53" by (simp add: floor_less_iff)
  then have "ulp_exp ?r \<le> k" using k by (simp add: ulp_exp_def)
  then obtain u where u: "ulp_exp ?r = u" and ue: "u \<le> k" by simp
  define n where "n = nat (k - u)"
  have kn: "k = u + int n" using ue by (simp add: n_def)
  have p: "(2::real) powr of_int k = 2 powr of_int u * 2 ^ n"
    by (subst kn) (simp add: powr_add powr_realpow)
  have "?r / 2 powr of_int u = of_int m * (2 powr of_int u * 2 ^ n) / 2 powr of_int u"
    by (simp only: p)
  also have "\<dots> = of_int (m * 2 ^ n)" by simp
  finally have q: "?r / 2 powr of_int u = of_int (m * 2 ^ n)" .
  have "rnd ?r = of_int (rne (?r / 2 powr of_int u)) * 2 powr of_int u"
    using pos by (simp add: rnd_def u)
  also have "\<dots> = of_int (m * 2 ^ n) * 2 powr of_int u"
    by (simp only: q rne_of_int)
  also have "\<dots> = of_int m * (2 powr of_int u * 2 ^ n)" by simp
  also have "\<dots> = ?r" by (simp only: p)
  finally show ?thesis .
qed

lemma rnd_of_int: "\<bar>m\<bar> < 2 ^ 53 \<Longrightarrow> rnd (of_int m) = of_int m"
  using rnd_representable [of m 0] by simp

lemma round64_dyadic:
  assumes "\<bar>m\<bar> < 2 ^ 53" and "n \<le> 1074"
  shows "round64 (of_int m / 2 ^ n) = Fin (of_int m / 2 ^ n)"
proof -
  have e: "(of_int m / 2 ^ n :: real) = of_int m * 2 powr of_int (- int n)"
    by (simp add: powr_minus_divide powr_realpow)
  have r: "rnd (of_int m / 2 ^ n) = of_int m / 2 ^ n"
    unfolding e using assms by (intro rnd_representable) simp_all
  have "\<bar>of_int m / 2 ^ n :: real\<bar> = \<bar>of_int m\<bar> / 2 ^ n" by (simp add: abs_divide)
  also have "\<dots> \<le> \<bar>of_int m\<bar> / 1" by (rule divide_left_mono) simp_all
  finally have "\<bar>of_int m / 2 ^ n :: real\<bar> \<le> \<bar>of_int m\<bar>" by simp
  moreover have "\<bar>of_int m :: real\<bar> < 2 ^ 53"
    using assms(1) by (metis of_int_abs of_int_less_iff of_int_numeral of_int_power)
  ultimately have "\<bar>of_int m / 2 ^ n :: real\<bar> < overflow64" using overflow64_gt by linarith
  then show ?thesis using round64_Fin [of "of_int m / 2 ^ n"] by (simp only: r)
qed

lemma round64_of_int: "\<bar>m\<bar> < 2 ^ 53 \<Longrightarrow> round64 (of_int m) = Fin (of_int m)"
  using round64_dyadic [of m 0] by simp

lemma round64_one: "round64 1 = Fin 1"
  using round64_of_int [of 1] by simp

lemma round64_neg_one: "round64 (- 1) = Fin (- 1)"
  using round64_of_int [of "- 1"] by simp

lemma round64_numeral: "(numeral k :: int) < 2 ^ 53 \<Longrightarrow> round64 (numeral k) = Fin (numeral k)"
  using round64_of_int [of "numeral k"] by simp

lemma round64_neg_numeral:
  "(numeral k :: int) < 2 ^ 53 \<Longrightarrow> round64 (- numeral k) = Fin (- numeral k)"
  using round64_of_int [of "- numeral k"] by simp

lemmas round64_small = round64_zero round64_one round64_neg_one round64_numeral round64_neg_numeral

lemma round64_eval:
  assumes "2 powr of_int e \<le> \<bar>r\<bar>" and "\<bar>r\<bar> < 2 powr of_int (e + 1)" and "- 1022 \<le> e"
    and "of_int (rne (r / 2 powr of_int (e - 52))) * 2 powr of_int (e - 52) = v"
    and "\<bar>v\<bar> < 2 ^ 53"
  shows "round64 r = Fin v"
proof -
  have "rnd r = v" using rnd_at [OF assms(1,2,3)] assms(4) by simp
  moreover have "\<bar>v\<bar> < overflow64" using assms(5) overflow64_gt by linarith
  ultimately show ?thesis using round64_Fin [of r] by simp
qed

lemma round64_pow2:
  assumes "k \<le> 1023"
  shows "round64 (2 ^ k) = Fin (2 ^ k)"
proof -
  have "rnd (2 ^ k) = 2 ^ k"
    using rnd_representable [of 1 "int k"] by (simp add: powr_realpow)
  moreover have "(2::real) ^ k < 2 ^ 1024"
    using assms by (intro power_strict_increasing) simp_all
  ultimately show ?thesis
    using round64_Fin [of "2 ^ k"] by (simp add: overflow64_def)
qed

lemma round64_pow2_overflow:
  assumes "1024 \<le> k"
  shows "round64 (2 ^ k) = PInf"
proof -
  have "rnd (2 ^ k) = 2 ^ k"
    using rnd_representable [of 1 "int k"] by (simp add: powr_realpow)
  moreover have "(2::real) ^ 1024 \<le> 2 ^ k"
    using assms by (intro power_increasing) simp_all
  ultimately show ?thesis by (simp add: round64_def overflow64_def)
qed

subsection \<open>The rounding error\<close>

lemma rne_error: "\<bar>of_int (rne q) - q\<bar> \<le> 1 / 2"
proof -
  have "of_int \<lfloor>q\<rfloor> \<le> q" "q < of_int \<lfloor>q\<rfloor> + 1" by linarith+
  then show ?thesis unfolding rne_def Let_def by (auto simp add: abs_le_iff)
qed

lemma rnd_error_ulp:
  assumes "r \<noteq> 0"
  shows "\<bar>rnd r - r\<bar> \<le> 2 powr of_int (ulp_exp r) / 2"
proof -
  let ?P = "2 powr of_int (ulp_exp r) :: real"
  have P: "0 < ?P" by simp
  have "rnd r - r = (of_int (rne (r / ?P)) - r / ?P) * ?P"
    using assms by (simp add: rnd_def algebra_simps)
  then have "\<bar>rnd r - r\<bar> = \<bar>of_int (rne (r / ?P)) - r / ?P\<bar> * ?P"
    by (simp add: abs_mult)
  also have "\<dots> \<le> 1 / 2 * ?P"
    by (rule mult_right_mono [OF rne_error]) simp
  finally show ?thesis by simp
qed

lemma ulp_bound:
  assumes "r \<noteq> 0"
  shows "2 powr of_int (ulp_exp r) / 2 \<le> \<bar>r\<bar> / 2 ^ 53 + eta64"
proof -
  define e where "e = \<lfloor>log 2 \<bar>r\<bar>\<rfloor>"
  have pos: "0 < \<bar>r\<bar>" using assms by simp
  have le: "2 powr of_int e \<le> \<bar>r\<bar>"
    using pos floor_log_eq_powr_iff [of "\<bar>r\<bar>" 2 e] by (simp add: e_def)
  show ?thesis
  proof (cases "- 1022 \<le> e")
    case True
    then have "ulp_exp r = e - 52" by (simp add: ulp_exp_def e_def)
    then have "(2::real) powr of_int (ulp_exp r) / 2 = 2 powr of_int e / 2 ^ 53"
      by (simp add: powr_diff)
    also have "\<dots> \<le> \<bar>r\<bar> / 2 ^ 53" using le by (simp add: divide_right_mono)
    also have "\<dots> \<le> \<bar>r\<bar> / 2 ^ 53 + eta64" by (simp add: eta64_def)
    finally show ?thesis .
  next
    case False
    then have "ulp_exp r = - 1074" by (simp add: ulp_exp_def e_def)
    then have "(2::real) powr of_int (ulp_exp r) / 2 = 2 powr (- 1074) / 2 powr 1" by simp
    also have "\<dots> = eta64" unfolding eta64_def by (simp only: powr_diff [symmetric]) simp
    also have "\<dots> \<le> \<bar>r\<bar> / 2 ^ 53 + eta64" by simp
    finally show ?thesis .
  qed
qed

lemma rnd_error: "\<bar>rnd r - r\<bar> \<le> \<bar>r\<bar> / 2 ^ 53 + eta64"
proof (cases "r = 0")
  case True
  then show ?thesis by (simp add: rnd_zero eta64_def)
next
  case False
  from rnd_error_ulp [OF False] ulp_bound [OF False] show ?thesis by linarith
qed

lemma round64_Fin_D: "round64 r = Fin z \<Longrightarrow> z = rnd r"
  by (simp add: round64_def Let_def split: if_splits)

lemma dsub_error:
  assumes "dsub (Fin x) (Fin y) = Fin z"
  shows "\<bar>z - (x - y)\<bar> \<le> \<bar>x - y\<bar> / 2 ^ 53 + eta64"
proof -
  from assms have "z = rnd (x - y)" by (simp add: dsub_def round64_Fin_D)
  then show ?thesis using rnd_error [of "x - y"] by simp
qed

lemma two_step_error:
  fixes d r1 r2 p z :: real
  assumes p: "\<bar>p - (d - r1)\<bar> \<le> \<bar>d - r1\<bar> / 2 ^ 53 + eta"
    and z: "\<bar>z - (p - r2)\<bar> \<le> \<bar>p - r2\<bar> / 2 ^ 53 + eta"
    and eta: "0 \<le> eta"
  shows "\<bar>z - (d - r1 - r2)\<bar> \<le> (\<bar>d\<bar> + \<bar>r1\<bar> + \<bar>r2\<bar>) / 2 ^ 51 + 3 * eta"
proof -
  have a: "\<bar>d - r1\<bar> \<le> \<bar>d\<bar> + \<bar>r1\<bar>" by linarith
  have b: "\<bar>p - r2\<bar> \<le> \<bar>p - (d - r1)\<bar> + \<bar>d - r1\<bar> + \<bar>r2\<bar>" by linarith
  have c: "\<bar>z - (d - r1 - r2)\<bar> \<le> \<bar>z - (p - r2)\<bar> + \<bar>p - (d - r1)\<bar>" by linarith
  define A where "A = \<bar>d - r1\<bar>"
  define B where "B = \<bar>p - r2\<bar>"
  define E1 where "E1 = \<bar>p - (d - r1)\<bar>"
  define E2 where "E2 = \<bar>z - (p - r2)\<bar>"
  define S where "S = \<bar>d\<bar> + \<bar>r1\<bar> + \<bar>r2\<bar>"
  have S: "0 \<le> S" "A \<le> S - \<bar>r2\<bar>" "0 \<le> A" "0 \<le> \<bar>r2\<bar>"
    using a by (simp_all add: S_def A_def)
  have e1: "E1 \<le> A / 2 ^ 53 + eta" using p by (simp add: E1_def A_def)
  have e2: "E2 \<le> B / 2 ^ 53 + eta" using z by (simp add: E2_def B_def)
  have b': "B \<le> E1 + A + \<bar>r2\<bar>" using b by (simp add: B_def E1_def A_def)
  have "E2 + E1 \<le> S / 2 ^ 51 + 3 * eta"
    using S e1 e2 b' eta by simp
  then show ?thesis using c by (simp add: E1_def E2_def S_def)
qed

lemma eta64_nonneg: "0 \<le> eta64"
  by (simp add: eta64_def)

subsection \<open>Algebra of the operations\<close>

lemma dneg_dneg: "dneg (dneg a) = a"
  by (cases a) simp_all

lemma dadd_commute: "dadd a b = dadd b a"
  by (cases a; cases b) (simp_all add: add.commute)

lemma dmul_commute: "dmul a b = dmul b a"
  by (cases a; cases b) (simp_all add: mult.commute)

lemma dadd_NaN: "dadd a NaN = NaN" "dadd NaN a = NaN"
  by (cases a; simp)+

lemma dmul_NaN: "dmul a NaN = NaN" "dmul NaN a = NaN"
  by (cases a; simp)+

lemma dsub_NaN: "dsub a NaN = NaN" "dsub NaN a = NaN"
  by (simp_all add: dsub_def dadd_NaN)

lemma ddiv_NaN: "ddiv a NaN = Some NaN" "ddiv NaN a = Some NaN"
  by (cases a; simp)+

lemma dle_NaN: "\<not> dle a NaN" "\<not> dle NaN a"
  by (cases a; simp)+

lemma dadd_dneg: "dadd (dneg a) (dneg b) = dneg (dadd a b)"
proof (cases a; cases b)
  fix x y assume "a = Fin x" "b = Fin y"
  then show ?thesis using round64_minus [of "x + y"] by simp
qed simp_all

lemma dsub_dneg: "dsub (dneg a) (dneg b) = dneg (dsub a b)"
  by (simp add: dsub_def dadd_dneg)

lemma dsub_swap: "dsub a b = dneg (dsub b a)"
proof -
  have "dneg (dsub b a) = dadd (dneg b) (dneg (dneg a))"
    by (simp add: dsub_def dadd_dneg)
  also have "\<dots> = dadd a (dneg b)" by (simp add: dneg_dneg dadd_commute)
  finally show ?thesis by (simp add: dsub_def)
qed

lemma dmul_dneg_left: "dmul (dneg a) b = dneg (dmul a b)"
proof (cases a; cases b)
  fix x y assume "a = Fin x" "b = Fin y"
  then show ?thesis using round64_minus [of "x * y"] by simp
qed (simp_all add: mult_less_0_iff zero_less_mult_iff)

lemma dmul_dneg_right: "dmul a (dneg b) = dneg (dmul a b)"
  by (metis dmul_commute dmul_dneg_left)

lemma dmul_dneg_dneg: "dmul (dneg a) (dneg b) = dmul a b"
  by (simp add: dmul_dneg_left dmul_dneg_right dneg_dneg)

lemma dsub_self: "dsub (Fin x) (Fin x) = Fin 0"
  by (simp add: dsub_def round64_zero)

lemma dmul_zero: "dmul (Fin 0) (Fin y) = Fin 0" "dmul (Fin x) (Fin 0) = Fin 0"
  by (simp_all add: round64_zero)

lemma dadd_Fin_D: "dadd a b = Fin z \<Longrightarrow> \<exists>x y. a = Fin x \<and> b = Fin y"
  by (cases a; cases b) simp_all

lemma dneg_Fin_D: "dneg a = Fin z \<Longrightarrow> \<exists>x. a = Fin x"
  by (cases a) simp_all

lemma dsub_Fin_D: "dsub a b = Fin z \<Longrightarrow> \<exists>x y. a = Fin x \<and> b = Fin y"
  unfolding dsub_def by (cases a; cases b) simp_all

lemma dmul_Fin_D: "dmul a b = Fin z \<Longrightarrow> \<exists>x y. a = Fin x \<and> b = Fin y"
  by (cases a; cases b) (simp_all split: if_splits)

lemma ddiv_self: "x \<noteq> 0 \<Longrightarrow> ddiv (Fin x) (Fin x) = Some (Fin 1)"
  by (simp add: round64_one)

lemma ddiv_zero: "y \<noteq> 0 \<Longrightarrow> ddiv (Fin 0) (Fin y) = Some (Fin 0)"
  by (simp add: round64_zero)

lemma between64_zero_one: "between64 (Fin 0) (Fin 0) (Fin 1)" "between64 (Fin 1) (Fin 0) (Fin 1)"
  by (simp_all add: between64_def dge_def)

lemma dsub_self_Fin: "dsub m m = Fin z \<Longrightarrow> dsub m m = Fin 0"
  using dsub_Fin_D dsub_self by blast

lemma is_fin_D: "is_fin a \<Longrightarrow> \<exists>x. a = Fin x"
  by (cases a) simp_all

lemma rne_nonneg: "0 \<le> q \<Longrightarrow> 0 \<le> rne q"
  unfolding rne_def Let_def by (auto simp add: zero_le_floor)

lemma rnd_nonneg: "0 \<le> r \<Longrightarrow> 0 \<le> rnd r"
  by (simp add: rnd_def rne_nonneg)

lemma round64_not_NaN: "round64 r \<noteq> NaN"
  by (simp add: round64_def Let_def)

lemma round64_nonneg: "0 \<le> r \<Longrightarrow> nonneg64 (round64 r)"
  using rnd_nonneg [of r] overflow64_gt by (auto simp add: round64_def Let_def)

lemma nonneg64_not_NaN: "nonneg64 a \<Longrightarrow> a \<noteq> NaN"
  by (cases a) simp_all

lemma dmul_self_nonneg: "a \<noteq> NaN \<Longrightarrow> nonneg64 (dmul a a)"
  by (cases a) (simp_all add: round64_nonneg)

lemma dadd_nonneg:
  assumes "nonneg64 a" and "nonneg64 b"
  shows "nonneg64 (dadd a b)"
proof (cases a; cases b)
  fix x y assume ab: "a = Fin x" "b = Fin y"
  with assms have "0 \<le> x + y" by simp
  then show ?thesis unfolding ab by (simp add: round64_nonneg)
qed (use assms in simp_all)

lemma dsqrt_nonneg: "nonneg64 a \<Longrightarrow> nonneg64 (dsqrt a)"
  by (cases a) (simp_all add: round64_nonneg)

lemma dsub_Fin_not_NaN: "a \<noteq> NaN \<Longrightarrow> dsub a (Fin r) \<noteq> NaN"
  by (cases a) (simp_all add: dsub_def round64_not_NaN)

section \<open>Distance on binary64 values\<close>

lemma plain64_sym: "plain64 x1 y1 x2 y2 = plain64 x2 y2 x1 y1"
proof -
  have sq: "dmul (dsub a b) (dsub a b) = dmul (dsub b a) (dsub b a)" for a b
  proof -
    have "dmul (dsub a b) (dsub a b) = dmul (dneg (dsub b a)) (dneg (dsub b a))"
      using dsub_swap [of a b] by simp
    then show ?thesis by (simp only: dmul_dneg_dneg)
  qed
  from sq [of x1 x2] sq [of y1 y2] show ?thesis by (simp add: plain64_def Let_def)
qed

lemma plain64_same: "plain64 (Fin a) (Fin b) (Fin a) (Fin b) = Fin 0"
  by (simp add: plain64_def Let_def dsub_self round64_zero)

lemma plain64_nonneg: "nonneg64 (plain64 (Fin a1) (Fin b1) (Fin a2) (Fin b2))"
  unfolding plain64_def Let_def
  by (intro dsqrt_nonneg dadd_nonneg dmul_self_nonneg dsub_Fin_not_NaN) simp_all

text \<open>
  The numbers of the example below: \<open>3602879701896397 / 2 ^ 55\<close> is the binary64 value of
  the literal \<open>0.1\<close> and \<open>3602879701896397 / 2 ^ 54\<close> that of \<open>0.2\<close>;
  \<open>6305039478318694 / 2 ^ 53\<close> prints as \<open>0.7\<close> and \<open>6305039478318695 / 2 ^ 53\<close> as
  \<open>0.7000000000000001\<close>.
\<close>

lemma plain64_unit: "plain64 (Fin 0) (Fin 0) (Fin 1) (Fin 0) = Fin 1"
  by (simp add: plain64_def Let_def dsub_def round64_small)

lemma one_minus_tenth:
  "round64 (1 - 3602879701896397 / 2 ^ 55) = Fin (8106479329266893 / 2 ^ 53)"
  by (rule round64_eval [where e = "- 1"]) (simp_all add: powr_neg_numeral rne_def Let_def)

lemma one_minus_fifth:
  "round64 (1 - 3602879701896397 / 2 ^ 54) = Fin (7205759403792794 / 2 ^ 53)"
  by (rule round64_eval [where e = "- 1"]) (simp_all add: powr_neg_numeral rne_def Let_def)

lemma nine_tenths_minus_fifth:
  "round64 (8106479329266893 / 2 ^ 53 - 3602879701896397 / 2 ^ 54) = Fin (6305039478318694 / 2 ^ 53)"
  by (rule round64_eval [where e = "- 1"]) (simp_all add: powr_neg_numeral rne_def Let_def)

lemma four_fifths_minus_tenth:
  "round64 (7205759403792794 / 2 ^ 53 - 3602879701896397 / 2 ^ 55) = Fin (6305039478318695 / 2 ^ 53)"
  by (rule round64_eval [where e = "- 1"]) (simp_all add: powr_neg_numeral rne_def Let_def)

lemma circles64_error:
  assumes "dsub (dsub (Fin d) (Fin r1)) (Fin r2) = Fin z"
  shows "\<bar>z - (d - r1 - r2)\<bar> \<le> (\<bar>d\<bar> + \<bar>r1\<bar> + \<bar>r2\<bar>) / 2 ^ 51 + 3 * eta64"
proof -
  from assms obtain p where p: "dsub (Fin d) (Fin r1) = Fin p"
    by (blast dest: dsub_Fin_D)
  with assms have z: "dsub (Fin p) (Fin r2) = Fin z" by simp
  from two_step_error [OF dsub_error [OF p] dsub_error [OF z] eta64_nonneg] show ?thesis .
qed

lemma circles64_tenth_fifth:
  "Distance_circles64 \<lparr>cx64 = Fin 0, cy64 = Fin 0, radius64 = Fin (3602879701896397 / 2 ^ 55)\<rparr>
       \<lparr>cx64 = Fin 1, cy64 = Fin 0, radius64 = Fin (3602879701896397 / 2 ^ 54)\<rparr>
     = Fin (6305039478318694 / 2 ^ 53)"
  "Distance_circles64 \<lparr>cx64 = Fin 1, cy64 = Fin 0, radius64 = Fin (3602879701896397 / 2 ^ 54)\<rparr>
       \<lparr>cx64 = Fin 0, cy64 = Fin 0, radius64 = Fin (3602879701896397 / 2 ^ 55)\<rparr>
     = Fin (6305039478318695 / 2 ^ 53)"
proof -
  have p: "plain64 (Fin 1) (Fin 0) (Fin 0) (Fin 0) = Fin 1"
    using plain64_sym [of "Fin 1" "Fin 0" "Fin 0" "Fin 0"] plain64_unit by simp
  show "Distance_circles64 \<lparr>cx64 = Fin 0, cy64 = Fin 0, radius64 = Fin (3602879701896397 / 2 ^ 55)\<rparr>
       \<lparr>cx64 = Fin 1, cy64 = Fin 0, radius64 = Fin (3602879701896397 / 2 ^ 54)\<rparr>
     = Fin (6305039478318694 / 2 ^ 53)"
    using one_minus_tenth nine_tenths_minus_fifth
    by (simp add: Distance_circles64_def plain64_unit dsub_def)
  show "Distance_circles64 \<lparr>cx64 = Fin 1, cy64 = Fin 0, radius64 = Fin (3602879701896397 / 2 ^ 54)\<rparr>
       \<lparr>cx64 = Fin 0, cy64 = Fin 0, radius64 = Fin (3602879701896397 / 2 ^ 55)\<rparr>
     = Fin (6305039478318695 / 2 ^ 53)"
    using one_minus_fifth four_fifths_minus_tenth
    by (simp add: Distance_circles64_def p dsub_def)
qed

text \<open>
  C8, as stated, fails for the circles: \<open>Distance.circles\<close> subtracts first the radius of
  its first argument, then that of its second, and each subtraction rounds. For the circles
  with centre (0,0), radius 0.1 and centre (1,0), radius 0.2 the result is 0.7 in one order
  and 0.7000000000000001 in the other, and \<open>==\<close> is false.
\<close>

theorem circles_order_counterexample:
  "Distance_circles64 \<lparr>cx64 = Fin 0, cy64 = Fin 0, radius64 = Fin (3602879701896397 / 2 ^ 55)\<rparr>
       \<lparr>cx64 = Fin 1, cy64 = Fin 0, radius64 = Fin (3602879701896397 / 2 ^ 54)\<rparr>
     = Fin (6305039478318694 / 2 ^ 53)
   \<and> Distance_circles64 \<lparr>cx64 = Fin 1, cy64 = Fin 0, radius64 = Fin (3602879701896397 / 2 ^ 54)\<rparr>
       \<lparr>cx64 = Fin 0, cy64 = Fin 0, radius64 = Fin (3602879701896397 / 2 ^ 55)\<rparr>
     = Fin (6305039478318695 / 2 ^ 53)
   \<and> \<not> deq
       (Distance_circles64 \<lparr>cx64 = Fin 0, cy64 = Fin 0, radius64 = Fin (3602879701896397 / 2 ^ 55)\<rparr>
          \<lparr>cx64 = Fin 1, cy64 = Fin 0, radius64 = Fin (3602879701896397 / 2 ^ 54)\<rparr>)
       (Distance_circles64 \<lparr>cx64 = Fin 1, cy64 = Fin 0, radius64 = Fin (3602879701896397 / 2 ^ 54)\<rparr>
          \<lparr>cx64 = Fin 0, cy64 = Fin 0, radius64 = Fin (3602879701896397 / 2 ^ 55)\<rparr>)"
  unfolding circles64_tenth_fifth by (simp add: deq_def)

text \<open>
  C8, amended: \<open>Distance.plain\<close> returns the same value for \<open>(p, q)\<close> and \<open>(q, p)\<close>; for
  finite points \<open>plain(p, q) == plain(q, p)\<close> and \<open>plain(p, p) == 0\<close>. For finite circles
  of equal radius \<open>Distance.circles(c1, c2) == Distance.circles(c2, c1)\<close>; for any two
  circles whose centre distance \<open>d\<close>, radii \<open>r1\<close>, \<open>r2\<close> and results are finite, the two
  results differ by at most \<open>(d + |r1| + |r2|) / 2 ^ 50 + 6 * 2 ^ (- 1075)\<close>, the rounding
  error of the subtractions.
\<close>

theorem distance_symmetry64:
  "plain64 x1 y1 x2 y2 = plain64 x2 y2 x1 y1
   \<and> deq (plain64 (Fin a1) (Fin b1) (Fin a2) (Fin b2)) (plain64 (Fin a2) (Fin b2) (Fin a1) (Fin b1))
   \<and> deq (plain64 (Fin a1) (Fin b1) (Fin a1) (Fin b1)) (Fin 0)
   \<and> (finite_circle c1 \<and> finite_circle c2 \<and> radius64 c1 = radius64 c2
      \<longrightarrow> deq (Distance_circles64 c1 c2) (Distance_circles64 c2 c1))
   \<and> (plain64 (cx64 c1) (cy64 c1) (cx64 c2) (cy64 c2) = Fin d
        \<and> radius64 c1 = Fin r1 \<and> radius64 c2 = Fin r2
        \<and> Distance_circles64 c1 c2 = Fin z12 \<and> Distance_circles64 c2 c1 = Fin z21
      \<longrightarrow> \<bar>z12 - z21\<bar> \<le> (\<bar>d\<bar> + \<bar>r1\<bar> + \<bar>r2\<bar>) / 2 ^ 50 + 6 * eta64)"
proof (intro conjI impI)
  show "plain64 x1 y1 x2 y2 = plain64 x2 y2 x1 y1" by (rule plain64_sym)
  show "deq (plain64 (Fin a1) (Fin b1) (Fin a2) (Fin b2)) (plain64 (Fin a2) (Fin b2) (Fin a1) (Fin b1))"
    using plain64_sym [of "Fin a1" "Fin b1" "Fin a2" "Fin b2"]
      nonneg64_not_NaN [OF plain64_nonneg [of a1 b1 a2 b2]]
    by (simp add: deq_def)
  show "deq (plain64 (Fin a1) (Fin b1) (Fin a1) (Fin b1)) (Fin 0)"
    by (simp add: plain64_same deq_def)
next
  assume h: "finite_circle c1 \<and> finite_circle c2 \<and> radius64 c1 = radius64 c2"
  then obtain xa ya ra xb yb where
    c: "cx64 c1 = Fin xa" "cy64 c1 = Fin ya" "radius64 c1 = Fin ra"
       "cx64 c2 = Fin xb" "cy64 c2 = Fin yb"
    unfolding finite_circle_def by (blast dest: is_fin_D)
  from h c(3) have c2r: "radius64 c2 = Fin ra" by simp
  note c = c c2r
  have eq: "Distance_circles64 c1 c2 = Distance_circles64 c2 c1"
    using plain64_sym [of "Fin xa" "Fin ya" "Fin xb" "Fin yb"]
    by (simp add: Distance_circles64_def c)
  have "Distance_circles64 c1 c2 \<noteq> NaN"
    unfolding Distance_circles64_def c
    by (intro dsub_Fin_not_NaN nonneg64_not_NaN plain64_nonneg)
  with eq show "deq (Distance_circles64 c1 c2) (Distance_circles64 c2 c1)"
    by (simp add: deq_def)
next
  assume h: "plain64 (cx64 c1) (cy64 c1) (cx64 c2) (cy64 c2) = Fin d
        \<and> radius64 c1 = Fin r1 \<and> radius64 c2 = Fin r2
        \<and> Distance_circles64 c1 c2 = Fin z12 \<and> Distance_circles64 c2 c1 = Fin z21"
  then have h1: "plain64 (cx64 c1) (cy64 c1) (cx64 c2) (cy64 c2) = Fin d"
    and h2: "radius64 c1 = Fin r1" and h3: "radius64 c2 = Fin r2"
    and h4: "Distance_circles64 c1 c2 = Fin z12" and h5: "Distance_circles64 c2 c1 = Fin z21"
    by blast+
  have d21: "plain64 (cx64 c2) (cy64 c2) (cx64 c1) (cy64 c1) = Fin d"
    using plain64_sym [of "cx64 c2" "cy64 c2" "cx64 c1" "cy64 c1"] h1 by simp
  have "dsub (dsub (Fin d) (Fin r1)) (Fin r2) = Fin z12"
    using h4 unfolding Distance_circles64_def h1 h2 h3 .
  then have e12: "\<bar>z12 - (d - r1 - r2)\<bar> \<le> (\<bar>d\<bar> + \<bar>r1\<bar> + \<bar>r2\<bar>) / 2 ^ 51 + 3 * eta64"
    by (rule circles64_error)
  have "dsub (dsub (Fin d) (Fin r2)) (Fin r1) = Fin z21"
    using h5 unfolding Distance_circles64_def d21 h2 h3 .
  then have e21: "\<bar>z21 - (d - r2 - r1)\<bar> \<le> (\<bar>d\<bar> + \<bar>r2\<bar> + \<bar>r1\<bar>) / 2 ^ 51 + 3 * eta64"
    by (rule circles64_error)
  define T where "T = (\<bar>d\<bar> + \<bar>r1\<bar> + \<bar>r2\<bar>) / 2 ^ 51"
  have T: "(\<bar>d\<bar> + \<bar>r1\<bar> + \<bar>r2\<bar>) / 2 ^ 50 = 2 * T" by (simp add: T_def)
  have "(\<bar>d\<bar> + \<bar>r2\<bar> + \<bar>r1\<bar>) / 2 ^ 51 = T" by (simp add: T_def add.commute add.left_commute)
  with e21 have e21': "\<bar>z21 - (d - r2 - r1)\<bar> \<le> T + 3 * eta64" by simp
  from e12 have e12': "\<bar>z12 - (d - r1 - r2)\<bar> \<le> T + 3 * eta64" by (simp add: T_def)
  have "\<bar>z12 - z21\<bar> \<le> \<bar>z12 - (d - r1 - r2)\<bar> + \<bar>z21 - (d - r2 - r1)\<bar>" by linarith
  with e12' e21' have "\<bar>z12 - z21\<bar> \<le> 2 * T + 6 * eta64" by linarith
  then show "\<bar>z12 - z21\<bar> \<le> (\<bar>d\<bar> + \<bar>r1\<bar> + \<bar>r2\<bar>) / 2 ^ 50 + 6 * eta64"
    by (simp only: T)
qed

theorem distance_symmetry64_witness:
  "finite_circle \<lparr>cx64 = Fin 0, cy64 = Fin 0, radius64 = Fin 1\<rparr>
   \<and> finite_circle \<lparr>cx64 = Fin 1, cy64 = Fin 0, radius64 = Fin 1\<rparr>
   \<and> radius64 \<lparr>cx64 = Fin 0, cy64 = Fin 0, radius64 = Fin 1\<rparr> = radius64 \<lparr>cx64 = Fin 1, cy64 = Fin 0, radius64 = Fin 1\<rparr>
   \<and> deq (Distance_circles64 \<lparr>cx64 = Fin 0, cy64 = Fin 0, radius64 = Fin 1\<rparr> \<lparr>cx64 = Fin 1, cy64 = Fin 0, radius64 = Fin 1\<rparr>)
        (Distance_circles64 \<lparr>cx64 = Fin 1, cy64 = Fin 0, radius64 = Fin 1\<rparr> \<lparr>cx64 = Fin 0, cy64 = Fin 0, radius64 = Fin 1\<rparr>)
   \<and> plain64 (Fin 0) (Fin 0) (Fin 1) (Fin 0) = Fin 1
   \<and> Distance_circles64 \<lparr>cx64 = Fin 0, cy64 = Fin 0, radius64 = Fin (3602879701896397 / 2 ^ 55)\<rparr>
       \<lparr>cx64 = Fin 1, cy64 = Fin 0, radius64 = Fin (3602879701896397 / 2 ^ 54)\<rparr>
     = Fin (6305039478318694 / 2 ^ 53)
   \<and> Distance_circles64 \<lparr>cx64 = Fin 1, cy64 = Fin 0, radius64 = Fin (3602879701896397 / 2 ^ 54)\<rparr>
       \<lparr>cx64 = Fin 0, cy64 = Fin 0, radius64 = Fin (3602879701896397 / 2 ^ 55)\<rparr>
     = Fin (6305039478318695 / 2 ^ 53)
   \<and> \<bar>6305039478318694 / 2 ^ 53 - 6305039478318695 / 2 ^ 53\<bar>
       \<le> (\<bar>1\<bar> + \<bar>3602879701896397 / 2 ^ 55\<bar> + \<bar>3602879701896397 / 2 ^ 54\<bar>) / 2 ^ 50 + 6 * eta64"
proof -
  let ?a = "\<lparr>cx64 = Fin 0, cy64 = Fin 0, radius64 = Fin 1\<rparr>"
  let ?b = "\<lparr>cx64 = Fin 1, cy64 = Fin 0, radius64 = Fin 1\<rparr>"
  let ?c1 = "\<lparr>cx64 = Fin 0, cy64 = Fin 0, radius64 = Fin (3602879701896397 / 2 ^ 55)\<rparr>"
  let ?c2 = "\<lparr>cx64 = Fin 1, cy64 = Fin 0, radius64 = Fin (3602879701896397 / 2 ^ 54)\<rparr>"
  have r: "radius64 ?a = radius64 ?b" by simp
  have f: "finite_circle ?a" "finite_circle ?b" by (simp_all add: finite_circle_def)
  have eq: "deq (Distance_circles64 ?a ?b) (Distance_circles64 ?b ?a)"
    using distance_symmetry64 [where ?c1.0 = ?a and ?c2.0 = ?b] r f by blast
  have p: "plain64 (cx64 ?c1) (cy64 ?c1) (cx64 ?c2) (cy64 ?c2) = Fin 1"
    by (simp add: plain64_unit)
  have z12: "Distance_circles64 ?c1 ?c2 = Fin (6305039478318694 / 2 ^ 53)"
    and z21: "Distance_circles64 ?c2 ?c1 = Fin (6305039478318695 / 2 ^ 53)"
    by (rule circles64_tenth_fifth)+
  have r1: "radius64 ?c1 = Fin (3602879701896397 / 2 ^ 55)" by simp
  have r2: "radius64 ?c2 = Fin (3602879701896397 / 2 ^ 54)" by simp
  have "\<bar>6305039478318694 / 2 ^ 53 - 6305039478318695 / 2 ^ 53\<bar>
       \<le> (\<bar>1\<bar> + \<bar>3602879701896397 / 2 ^ 55\<bar> + \<bar>3602879701896397 / 2 ^ 54\<bar>) / 2 ^ 50 + 6 * eta64"
    using distance_symmetry64 [where ?c1.0 = ?c1 and ?c2.0 = ?c2 and d = 1
        and ?r1.0 = "3602879701896397 / 2 ^ 55" and ?r2.0 = "3602879701896397 / 2 ^ 54"
        and ?z12.0 = "6305039478318694 / 2 ^ 53" and ?z21.0 = "6305039478318695 / 2 ^ 53"]
      p r1 r2 z12 z21 by blast
  with r f eq p z12 z21 show ?thesis by simp
qed

section \<open>Intersection.segments on binary64 values\<close>

lemma parallel_branch64:
  "tDen64 s1 s2 = Fin 0 \<Longrightarrow> segments64 s1 s2 =
     Some \<lparr>parallel64 = True, vertex64 = None, intersect64 = False, t64 = None, u64 = None\<rparr>"
  by (simp add: segments64_def deq_def)

lemma tDen64_zero_left:
  assumes "dsub (x64 (start64 s1)) (x64 (end64 s1)) = Fin 0"
    and "dsub (y64 (start64 s1)) (y64 (end64 s1)) = Fin 0"
    and "dsub (x64 (start64 s2)) (x64 (end64 s2)) = Fin dx"
    and "dsub (y64 (start64 s2)) (y64 (end64 s2)) = Fin dy"
  shows "tDen64 s1 s2 = Fin 0" and "tDen64 s2 s1 = Fin 0"
  using assms by (simp_all add: tDen64_def round64_zero dsub_def)

lemma overflow_difference: "dsub (Fin (- (2 ^ 1023))) (Fin (2 ^ 1023)) = NInf"
proof -
  have "rnd (2 ^ 1024) = 2 ^ 1024"
    using rnd_representable [of 1 1024] by (simp add: powr_numeral)
  then have "rnd (- (2 ^ 1024)) = - (2 ^ 1024)" by (simp only: rnd_minus)
  moreover have "- (2 ^ 1023) + - (2 ^ 1023) = (- (2 ^ 1024) :: real)" by simp
  ultimately show ?thesis by (simp add: dsub_def round64_def overflow64_def)
qed

text \<open>
  C6, as stated, fails when a coordinate difference of the other segment overflows. For
  the zero-length segment from (1,1) to (1,1) and the segment from \<open>(- 2 ^ 1023, 0)\<close> to
  \<open>(2 ^ 1023, 0)\<close>, both with finite coordinates, \<open>s2.start.x - s2.end.x\<close> is \<open>-Infinity\<close>,
  its product with 0 is NaN, \<open>tDen == 0\<close> is false, and the code returns
  \<open>parallel = false\<close> with a NaN vertex, in both argument orders.
\<close>

theorem zero_length_overflow_counterexample:
  "start64 (Segment64_new (Fin 1) (Fin 1) (Fin 1) (Fin 1)) = end64 (Segment64_new (Fin 1) (Fin 1) (Fin 1) (Fin 1))
   \<and> segments64 (Segment64_new (Fin 1) (Fin 1) (Fin 1) (Fin 1))
        (Segment64_new (Fin (- (2 ^ 1023))) (Fin 0) (Fin (2 ^ 1023)) (Fin 0))
       = Some \<lparr>parallel64 = False, vertex64 = Some \<lparr>x64 = NaN, y64 = NaN\<rparr>, intersect64 = False,
               t64 = Some NaN, u64 = Some NaN\<rparr>
   \<and> segments64 (Segment64_new (Fin (- (2 ^ 1023))) (Fin 0) (Fin (2 ^ 1023)) (Fin 0))
        (Segment64_new (Fin 1) (Fin 1) (Fin 1) (Fin 1))
       = Some \<lparr>parallel64 = False, vertex64 = Some \<lparr>x64 = NaN, y64 = NaN\<rparr>, intersect64 = False,
               t64 = Some NaN, u64 = Some NaN\<rparr>"
proof -
  let ?s = "Segment64_new (Fin 1) (Fin 1) (Fin 1) (Fin 1)"
  let ?s2 = "Segment64_new (Fin (- (2 ^ 1023))) (Fin 0) (Fin (2 ^ 1023)) (Fin 0)"
  have "tDen64 ?s ?s2 =
      dsub (dmul (dsub (Fin 1) (Fin 1)) (dsub (Fin 0) (Fin 0)))
        (dmul (dsub (Fin 1) (Fin 1)) (dsub (Fin (- (2 ^ 1023))) (Fin (2 ^ 1023))))"
    by (simp add: tDen64_def Segment64_new_def)
  also have "\<dots> = dsub (dmul (Fin 0) (Fin 0)) (dmul (Fin 0) NInf)"
    by (simp only: dsub_self overflow_difference)
  also have "\<dots> = NaN" by (simp add: dsub_NaN)
  finally have d1: "tDen64 ?s ?s2 = NaN" .
  have "tDen64 ?s2 ?s =
      dsub (dmul (dsub (Fin (- (2 ^ 1023))) (Fin (2 ^ 1023))) (dsub (Fin 1) (Fin 1)))
        (dmul (dsub (Fin 0) (Fin 0)) (dsub (Fin 1) (Fin 1)))"
    by (simp add: tDen64_def Segment64_new_def)
  also have "\<dots> = dsub (dmul NInf (Fin 0)) (dmul (Fin 0) (Fin 0))"
    by (simp only: dsub_self overflow_difference)
  also have "\<dots> = NaN" by (simp add: dsub_NaN)
  finally have d2: "tDen64 ?s2 ?s = NaN" .
  have r1: "segments64 ?s ?s2 = Some \<lparr>parallel64 = False, vertex64 = Some \<lparr>x64 = NaN, y64 = NaN\<rparr>,
      intersect64 = False, t64 = Some NaN, u64 = Some NaN\<rparr>"
    unfolding segments64_def d1
    by (simp add: deq_def ddiv_NaN dmul_NaN dadd_NaN between64_def dle_NaN dge_def)
  have r2: "segments64 ?s2 ?s = Some \<lparr>parallel64 = False, vertex64 = Some \<lparr>x64 = NaN, y64 = NaN\<rparr>,
      intersect64 = False, t64 = Some NaN, u64 = Some NaN\<rparr>"
    unfolding segments64_def d2
    by (simp add: deq_def ddiv_NaN dmul_NaN dadd_NaN between64_def dle_NaN dge_def)
  show ?thesis using r1 r2 by (simp add: Segment64_new_def)
qed

text \<open>
  C6, amended: for every segment \<open>s\<close> of length zero with finite coordinates and every
  segment \<open>s2\<close> whose coordinate differences \<open>start.x - end.x\<close> and \<open>start.y - end.y\<close> are
  finite (they do not overflow), both \<open>Intersection.segments(s, s2)\<close> and
  \<open>Intersection.segments(s2, s)\<close> return the result of the parallel branch,
  \<open>parallel = true, vertex = null, intersect = false\<close>, and no error.
\<close>

theorem zero_length_parallel64:
  assumes "start64 s = end64 s"
    and "x64 (start64 s) = Fin a" and "y64 (start64 s) = Fin b"
    and "dsub (x64 (start64 s2)) (x64 (end64 s2)) = Fin dx"
    and "dsub (y64 (start64 s2)) (y64 (end64 s2)) = Fin dy"
  shows "segments64 s s2 =
           Some \<lparr>parallel64 = True, vertex64 = None, intersect64 = False, t64 = None, u64 = None\<rparr>
       \<and> segments64 s2 s =
           Some \<lparr>parallel64 = True, vertex64 = None, intersect64 = False, t64 = None, u64 = None\<rparr>"
proof -
  from assms(1,2) have x: "dsub (x64 (start64 s)) (x64 (end64 s)) = Fin 0"
    by (metis dsub_self)
  from assms(1,3) have y: "dsub (y64 (start64 s)) (y64 (end64 s)) = Fin 0"
    by (metis dsub_self)
  from tDen64_zero_left [OF x y assms(4,5)] show ?thesis
    by (simp add: parallel_branch64)
qed

theorem zero_length_parallel64_witness:
  "start64 (Segment64_new (Fin 1) (Fin 1) (Fin 1) (Fin 1)) = end64 (Segment64_new (Fin 1) (Fin 1) (Fin 1) (Fin 1))
   \<and> dsub (x64 (start64 (Segment64_new (Fin 0) (Fin 0) (Fin 2) (Fin 3))))
          (x64 (end64 (Segment64_new (Fin 0) (Fin 0) (Fin 2) (Fin 3)))) = Fin (- 2)
   \<and> dsub (y64 (start64 (Segment64_new (Fin 0) (Fin 0) (Fin 2) (Fin 3))))
          (y64 (end64 (Segment64_new (Fin 0) (Fin 0) (Fin 2) (Fin 3)))) = Fin (- 3)
   \<and> segments64 (Segment64_new (Fin 1) (Fin 1) (Fin 1) (Fin 1)) (Segment64_new (Fin 0) (Fin 0) (Fin 2) (Fin 3)) =
       Some \<lparr>parallel64 = True, vertex64 = None, intersect64 = False, t64 = None, u64 = None\<rparr>
   \<and> segments64 (Segment64_new (Fin 0) (Fin 0) (Fin 2) (Fin 3)) (Segment64_new (Fin 1) (Fin 1) (Fin 1) (Fin 1)) =
       Some \<lparr>parallel64 = True, vertex64 = None, intersect64 = False, t64 = None, u64 = None\<rparr>"
proof -
  let ?s = "Segment64_new (Fin 1) (Fin 1) (Fin 1) (Fin 1)"
  let ?s2 = "Segment64_new (Fin 0) (Fin 0) (Fin 2) (Fin 3)"
  have h: "start64 ?s = end64 ?s" by (simp add: Segment64_new_def)
  have x: "x64 (start64 ?s) = Fin 1" and y: "y64 (start64 ?s) = Fin 1"
    by (simp_all add: Segment64_new_def)
  have dx: "dsub (x64 (start64 ?s2)) (x64 (end64 ?s2)) = Fin (- 2)"
    by (simp add: Segment64_new_def dsub_def round64_small)
  have dy: "dsub (y64 (start64 ?s2)) (y64 (end64 ?s2)) = Fin (- 3)"
    by (simp add: Segment64_new_def dsub_def round64_small)
  from zero_length_parallel64 [OF h x y dx dy] h dx dy show ?thesis by simp
qed

subsection \<open>Segments that share an endpoint\<close>

lemma tDen64_Fin_D:
  assumes "tDen64 s1 s2 = Fin d"
  shows "\<exists>a1 b1 a2 b2.
      dsub (x64 (start64 s1)) (x64 (end64 s1)) = Fin a1 \<and> dsub (y64 (start64 s1)) (y64 (end64 s1)) = Fin b1
    \<and> dsub (x64 (start64 s2)) (x64 (end64 s2)) = Fin a2 \<and> dsub (y64 (start64 s2)) (y64 (end64 s2)) = Fin b2"
proof -
  from assms obtain p q where
    "dmul (dsub (x64 (start64 s1)) (x64 (end64 s1))) (dsub (y64 (start64 s2)) (y64 (end64 s2))) = Fin p"
    "dmul (dsub (y64 (start64 s1)) (y64 (end64 s1))) (dsub (x64 (start64 s2)) (x64 (end64 s2))) = Fin q"
    unfolding tDen64_def by (blast dest: dsub_Fin_D)
  then show ?thesis by (blast dest: dmul_Fin_D)
qed

lemma shared_start_start64:
  assumes "start64 s1 = start64 s2" and "tDen64 s1 s2 = Fin d"
  shows "tNom64 s1 s2 = Fin 0" and "uNom64 s1 s2 = Fin 0"
proof -
  from tDen64_Fin_D [OF assms(2)] obtain a1 b1 a2 b2 where
    d: "dsub (x64 (start64 s1)) (x64 (end64 s1)) = Fin a1" "dsub (y64 (start64 s1)) (y64 (end64 s1)) = Fin b1"
      "dsub (x64 (start64 s2)) (x64 (end64 s2)) = Fin a2" "dsub (y64 (start64 s2)) (y64 (end64 s2)) = Fin b2"
    by blast
  from d(1) obtain sx where sx: "x64 (start64 s1) = Fin sx" by (blast dest: dsub_Fin_D)
  from d(2) obtain sy where sy: "y64 (start64 s1) = Fin sy" by (blast dest: dsub_Fin_D)
  have zx: "dsub (x64 (start64 s1)) (x64 (start64 s2)) = Fin 0"
    using assms(1) sx by (metis dsub_self)
  have zy: "dsub (y64 (start64 s1)) (y64 (start64 s2)) = Fin 0"
    using assms(1) sy by (metis dsub_self)
  show "tNom64 s1 s2 = Fin 0"
    unfolding tNom64_def zx zy d by (simp add: round64_zero dsub_def)
  show "uNom64 s1 s2 = Fin 0"
    unfolding uNom64_def zx zy d by (simp add: round64_zero dsub_def)
qed

lemma shared_start_end64:
  assumes "start64 s1 = end64 s2" and "tNom64 s1 s2 = Fin a"
  shows "tNom64 s1 s2 = Fin 0" and "uNom64 s1 s2 = tDen64 s1 s2"
proof -
  let ?a2 = "dsub (x64 (start64 s2)) (x64 (end64 s2))"
  let ?b2 = "dsub (y64 (start64 s2)) (y64 (end64 s2))"
  have x: "dsub (x64 (start64 s1)) (x64 (start64 s2)) = dneg ?a2"
    unfolding assms(1) by (rule dsub_swap)
  have y: "dsub (y64 (start64 s1)) (y64 (start64 s2)) = dneg ?b2"
    unfolding assms(1) by (rule dsub_swap)
  have "tNom64 s1 s2 = dsub (dmul (dneg ?a2) ?b2) (dmul (dneg ?b2) ?a2)"
    unfolding tNom64_def x y ..
  also have "\<dots> = dsub (dneg (dmul ?a2 ?b2)) (dneg (dmul ?b2 ?a2))"
    by (simp only: dmul_dneg_left)
  also have "\<dots> = dsub (dneg (dmul ?a2 ?b2)) (dneg (dmul ?a2 ?b2))"
    by (simp only: dmul_commute [of ?b2 ?a2])
  finally have t: "tNom64 s1 s2 = dsub (dneg (dmul ?a2 ?b2)) (dneg (dmul ?a2 ?b2))" .
  with assms(2) show "tNom64 s1 s2 = Fin 0" by (metis dsub_self_Fin)
  show "uNom64 s1 s2 = tDen64 s1 s2"
    unfolding uNom64_def tDen64_def x y by (simp only: dmul_dneg_right dsub_dneg dneg_dneg)
qed

lemma shared_end_start64:
  assumes "end64 s1 = start64 s2" and "uNom64 s1 s2 = Fin b"
  shows "tNom64 s1 s2 = tDen64 s1 s2" and "uNom64 s1 s2 = Fin 0"
proof -
  let ?a1 = "dsub (x64 (start64 s1)) (x64 (end64 s1))"
  let ?b1 = "dsub (y64 (start64 s1)) (y64 (end64 s1))"
  show "tNom64 s1 s2 = tDen64 s1 s2"
    unfolding tNom64_def tDen64_def assms(1) [symmetric] ..
  have "uNom64 s1 s2 = dneg (dsub (dmul ?a1 ?b1) (dmul ?b1 ?a1))"
    unfolding uNom64_def assms(1) [symmetric] ..
  also have "\<dots> = dneg (dsub (dmul ?a1 ?b1) (dmul ?a1 ?b1))"
    by (simp only: dmul_commute [of ?b1 ?a1])
  finally have u: "uNom64 s1 s2 = dneg (dsub (dmul ?a1 ?b1) (dmul ?a1 ?b1))" .
  with assms(2) obtain z where "dsub (dmul ?a1 ?b1) (dmul ?a1 ?b1) = Fin z"
    by (metis dneg_Fin_D)
  then have "dsub (dmul ?a1 ?b1) (dmul ?a1 ?b1) = Fin 0" by (rule dsub_self_Fin)
  with u show "uNom64 s1 s2 = Fin 0" by simp
qed

lemma crossing_branch64:
  assumes "tDen64 s1 s2 = Fin d" and "d \<noteq> 0" and "tNom64 s1 s2 = Fin a" and "uNom64 s1 s2 = Fin b"
  shows "\<exists>res. segments64 s1 s2 = Some res
     \<and> t64 res = Some (round64 (a / d)) \<and> u64 res = Some (round64 (b / d))
     \<and> intersect64 res = (between64 (round64 (a / d)) (Fin 0) (Fin 1) \<and> between64 (round64 (b / d)) (Fin 0) (Fin 1))"
  using assms by (simp add: segments64_def deq_def)

lemma segments64_collinear:
  "segments64 (Segment64_new (Fin 0) (Fin 0) (Fin 1) (Fin 0)) (Segment64_new (Fin 1) (Fin 0) (Fin 2) (Fin 0))
     = Some \<lparr>parallel64 = True, vertex64 = None, intersect64 = False, t64 = None, u64 = None\<rparr>"
  by (rule parallel_branch64) (simp add: tDen64_def Segment64_new_def dsub_def round64_small)

lemma tenth_minus_one:
  "round64 (3602879701896397 / 2 ^ 55 - 1) = Fin (- (8106479329266893 / 2 ^ 53))"
  using round64_minus [of "1 - 3602879701896397 / 2 ^ 55"] one_minus_tenth by simp

lemma one_minus_nine_tenths:
  "round64 (1 - 8106479329266893 / 2 ^ 53) = Fin (900719925474099 / 2 ^ 53)"
  using round64_dyadic [of 900719925474099 53] by simp

lemma tenth_exact: "round64 (3602879701896397 / 2 ^ 55) = Fin (3602879701896397 / 2 ^ 55)"
  using round64_dyadic [of 3602879701896397 55] by simp

lemma neg_tenth_exact: "round64 (- (3602879701896397 / 2 ^ 55)) = Fin (- (3602879701896397 / 2 ^ 55))"
  using round64_dyadic [of "- 3602879701896397" 55] by simp

lemma nine_tenths_exact: "round64 (8106479329266893 / 2 ^ 53) = Fin (8106479329266893 / 2 ^ 53)"
  using round64_dyadic [of 8106479329266893 53] by simp

lemma next_after_one_exact: "round64 (4503599627370497 / 2 ^ 52) = Fin (4503599627370497 / 2 ^ 52)"
  using round64_dyadic [of 4503599627370497 52] by simp

lemma tenth_quotient:
  "round64 ((3602879701896397 / 2 ^ 55) / (900719925474099 / 2 ^ 53)) = Fin (4503599627370497 / 2 ^ 52)"
  by (rule round64_eval [where e = 0]) (simp_all add: powr_neg_numeral rne_def Let_def)

lemma segments64_shared_end_rounding:
  "segments64 (Segment64_new (Fin 0) (Fin 0) (Fin 1) (Fin 1))
       (Segment64_new (Fin (3602879701896397 / 2 ^ 55)) (Fin 0) (Fin 1) (Fin 1))
     = Some \<lparr>parallel64 = False,
             vertex64 = Some \<lparr>x64 = Fin (4503599627370497 / 2 ^ 52), y64 = Fin (4503599627370497 / 2 ^ 52)\<rparr>,
             intersect64 = False,
             t64 = Some (Fin (4503599627370497 / 2 ^ 52)),
             u64 = Some (Fin (4503599627370497 / 2 ^ 52))\<rparr>"
proof -
  let ?s1 = "Segment64_new (Fin 0) (Fin 0) (Fin 1) (Fin 1)"
  let ?s2 = "Segment64_new (Fin (3602879701896397 / 2 ^ 55)) (Fin 0) (Fin 1) (Fin 1)"
  have d: "tDen64 ?s1 ?s2 = Fin (900719925474099 / 2 ^ 53)"
    using tenth_minus_one nine_tenths_exact one_minus_nine_tenths
    by (simp add: tDen64_def Segment64_new_def dsub_def round64_small)
  have t: "tNom64 ?s1 ?s2 = Fin (3602879701896397 / 2 ^ 55)"
    using tenth_minus_one tenth_exact neg_tenth_exact
    by (simp add: tNom64_def Segment64_new_def dsub_def round64_small)
  have u: "uNom64 ?s1 ?s2 = Fin (3602879701896397 / 2 ^ 55)"
    using tenth_exact neg_tenth_exact
    by (simp add: uNom64_def Segment64_new_def dsub_def round64_small)
  show ?thesis
    unfolding segments64_def d t u
    using tenth_quotient next_after_one_exact
    by (simp add: deq_def Segment64_new_def dsub_def round64_small between64_def dge_def)
qed

lemma segments64_shared_start_overflow:
  "segments64 (Segment64_new (Fin 0) (Fin 0) (Fin 1) (Fin 0))
       (Segment64_new (Fin (2 ^ 600)) (Fin (2 ^ 600)) (Fin 0) (Fin 0))
     = Some \<lparr>parallel64 = False, vertex64 = Some \<lparr>x64 = NaN, y64 = NaN\<rparr>, intersect64 = False,
             t64 = Some NaN, u64 = Some (Fin 1)\<rparr>"
proof -
  let ?s1 = "Segment64_new (Fin 0) (Fin 0) (Fin 1) (Fin 0)"
  let ?s2 = "Segment64_new (Fin (2 ^ 600)) (Fin (2 ^ 600)) (Fin 0) (Fin 0)"
  have big: "round64 (2 ^ 600) = Fin (2 ^ 600)" by (rule round64_pow2) simp
  have nbig: "round64 (- (2 ^ 600)) = Fin (- (2 ^ 600))"
    using round64_minus [of "2 ^ 600"] big by simp
  have "(2::real) ^ 600 * 2 ^ 600 = 2 ^ 1200" by (simp add: power_add [symmetric])
  moreover have "round64 (2 ^ 1200) = PInf" by (rule round64_pow2_overflow) simp
  ultimately have ov: "round64 (- (2 ^ 600 * 2 ^ 600)) = NInf"
    using round64_minus [of "2 ^ 600 * 2 ^ 600"] by simp
  have pos: "(2::real) ^ 600 \<noteq> 0" by simp
  have d: "tDen64 ?s1 ?s2 = Fin (- (2 ^ 600))"
    using big nbig by (simp add: tDen64_def Segment64_new_def dsub_def round64_small)
  have t: "tNom64 ?s1 ?s2 = NaN"
    using big nbig ov by (simp add: tNom64_def Segment64_new_def dsub_def round64_small)
  have u: "uNom64 ?s1 ?s2 = Fin (- (2 ^ 600))"
    using big nbig by (simp add: uNom64_def Segment64_new_def dsub_def round64_small)
  show ?thesis
    unfolding segments64_def d t u
    by (simp add: deq_def Segment64_new_def dsub_def round64_small between64_def dge_def)
qed

text \<open>
  C2, as stated, fails in three ways. The segments from (0,0) to (1,0) and from (1,0) to
  (2,0) share exactly the endpoint (1,0); they are collinear, the denominator is 0 and the
  code returns \<open>parallel = true, intersect = false\<close>, with no \<open>t\<close> and no \<open>u\<close> (in exact
  arithmetic and on binary64 values alike). The segments from (0,0) to (1,1) and from
  (0.1,0) to (1,1) share exactly the endpoint (1,1), the end of both: \<open>tNom\<close> is 0.1, the
  denominator rounds to 0.09999999999999998, and \<open>t = u = 1.0000000000000002\<close>, so that
  \<open>intersect\<close> is false. The segments from (0,0) to (1,0) and from \<open>(2 ^ 600, 2 ^ 600)\<close> to
  (0,0) share exactly the endpoint (0,0): both products of \<open>tNom\<close> overflow to
  \<open>-Infinity\<close>, \<open>tNom\<close> and \<open>t\<close> are NaN, and \<open>intersect\<close> is false.
\<close>

theorem shared_endpoint_counterexample:
  "endpoints (Segment_new 0 0 1 0) \<inter> endpoints (Segment_new 1 0 2 0) = {\<lparr>vx = 1, vy = 0\<rparr>}
   \<and> segments (Segment_new 0 0 1 0) (Segment_new 1 0 2 0) =
       Some \<lparr>parallel = True, vertex = None, intersect = False, t_of = None, u_of = None\<rparr>
   \<and> endpoints64 (Segment64_new (Fin 0) (Fin 0) (Fin 1) (Fin 0))
         \<inter> endpoints64 (Segment64_new (Fin 1) (Fin 0) (Fin 2) (Fin 0)) = {\<lparr>x64 = Fin 1, y64 = Fin 0\<rparr>}
   \<and> segments64 (Segment64_new (Fin 0) (Fin 0) (Fin 1) (Fin 0)) (Segment64_new (Fin 1) (Fin 0) (Fin 2) (Fin 0)) =
       Some \<lparr>parallel64 = True, vertex64 = None, intersect64 = False, t64 = None, u64 = None\<rparr>
   \<and> endpoints64 (Segment64_new (Fin 0) (Fin 0) (Fin 1) (Fin 1))
         \<inter> endpoints64 (Segment64_new (Fin (3602879701896397 / 2 ^ 55)) (Fin 0) (Fin 1) (Fin 1))
       = {\<lparr>x64 = Fin 1, y64 = Fin 1\<rparr>}
   \<and> segments64 (Segment64_new (Fin 0) (Fin 0) (Fin 1) (Fin 1))
         (Segment64_new (Fin (3602879701896397 / 2 ^ 55)) (Fin 0) (Fin 1) (Fin 1)) =
       Some \<lparr>parallel64 = False,
             vertex64 = Some \<lparr>x64 = Fin (4503599627370497 / 2 ^ 52), y64 = Fin (4503599627370497 / 2 ^ 52)\<rparr>,
             intersect64 = False,
             t64 = Some (Fin (4503599627370497 / 2 ^ 52)),
             u64 = Some (Fin (4503599627370497 / 2 ^ 52))\<rparr>
   \<and> endpoints64 (Segment64_new (Fin 0) (Fin 0) (Fin 1) (Fin 0))
         \<inter> endpoints64 (Segment64_new (Fin (2 ^ 600)) (Fin (2 ^ 600)) (Fin 0) (Fin 0))
       = {\<lparr>x64 = Fin 0, y64 = Fin 0\<rparr>}
   \<and> segments64 (Segment64_new (Fin 0) (Fin 0) (Fin 1) (Fin 0))
         (Segment64_new (Fin (2 ^ 600)) (Fin (2 ^ 600)) (Fin 0) (Fin 0)) =
       Some \<lparr>parallel64 = False, vertex64 = Some \<lparr>x64 = NaN, y64 = NaN\<rparr>, intersect64 = False,
             t64 = Some NaN, u64 = Some (Fin 1)\<rparr>"
proof (intro conjI)
  show "endpoints64 (Segment64_new (Fin 0) (Fin 0) (Fin 1) (Fin 0))
         \<inter> endpoints64 (Segment64_new (Fin (2 ^ 600)) (Fin (2 ^ 600)) (Fin 0) (Fin 0))
       = {\<lparr>x64 = Fin 0, y64 = Fin 0\<rparr>}"
    by (auto simp add: endpoints64_def Segment64_new_def)
  show "segments64 (Segment64_new (Fin 0) (Fin 0) (Fin 1) (Fin 0))
         (Segment64_new (Fin (2 ^ 600)) (Fin (2 ^ 600)) (Fin 0) (Fin 0)) =
       Some \<lparr>parallel64 = False, vertex64 = Some \<lparr>x64 = NaN, y64 = NaN\<rparr>, intersect64 = False,
             t64 = Some NaN, u64 = Some (Fin 1)\<rparr>"
    by (rule segments64_shared_start_overflow)
  show "endpoints (Segment_new 0 0 1 0) \<inter> endpoints (Segment_new 1 0 2 0) = {\<lparr>vx = 1, vy = 0\<rparr>}"
    by (auto simp add: endpoints_def Segment_new_def)
  show "segments (Segment_new 0 0 1 0) (Segment_new 1 0 2 0) =
       Some \<lparr>parallel = True, vertex = None, intersect = False, t_of = None, u_of = None\<rparr>"
    by (simp add: Segment_new_def segments_def tDen_def)
  show "endpoints64 (Segment64_new (Fin 0) (Fin 0) (Fin 1) (Fin 0))
         \<inter> endpoints64 (Segment64_new (Fin 1) (Fin 0) (Fin 2) (Fin 0)) = {\<lparr>x64 = Fin 1, y64 = Fin 0\<rparr>}"
    by (auto simp add: endpoints64_def Segment64_new_def)
  show "segments64 (Segment64_new (Fin 0) (Fin 0) (Fin 1) (Fin 0)) (Segment64_new (Fin 1) (Fin 0) (Fin 2) (Fin 0)) =
       Some \<lparr>parallel64 = True, vertex64 = None, intersect64 = False, t64 = None, u64 = None\<rparr>"
    by (rule segments64_collinear)
  show "endpoints64 (Segment64_new (Fin 0) (Fin 0) (Fin 1) (Fin 1))
         \<inter> endpoints64 (Segment64_new (Fin (3602879701896397 / 2 ^ 55)) (Fin 0) (Fin 1) (Fin 1))
       = {\<lparr>x64 = Fin 1, y64 = Fin 1\<rparr>}"
    by (auto simp add: endpoints64_def Segment64_new_def)
  show "segments64 (Segment64_new (Fin 0) (Fin 0) (Fin 1) (Fin 1))
         (Segment64_new (Fin (3602879701896397 / 2 ^ 55)) (Fin 0) (Fin 1) (Fin 1)) =
       Some \<lparr>parallel64 = False,
             vertex64 = Some \<lparr>x64 = Fin (4503599627370497 / 2 ^ 52), y64 = Fin (4503599627370497 / 2 ^ 52)\<rparr>,
             intersect64 = False,
             t64 = Some (Fin (4503599627370497 / 2 ^ 52)),
             u64 = Some (Fin (4503599627370497 / 2 ^ 52))\<rparr>"
    by (rule segments64_shared_end_rounding)
qed

text \<open>
  C2, amended: for every two segments that share exactly one endpoint, which is not the
  end point of both, and for which the computed \<open>tNom\<close>, \<open>uNom\<close> and denominator are
  finite and the denominator is not 0 (the segments are not reported parallel),
  \<open>Intersection.segments\<close> reports \<open>intersect = true\<close> with \<open>t\<close> and \<open>u\<close> each equal to
  exactly 0 or 1.
\<close>

theorem shared_endpoint_intersect64:
  assumes "endpoints64 s1 \<inter> endpoints64 s2 = {p}" and "end64 s1 \<noteq> end64 s2"
    and "tDen64 s1 s2 = Fin d" and "d \<noteq> 0"
    and "tNom64 s1 s2 = Fin a" and "uNom64 s1 s2 = Fin b"
  shows "\<exists>res. segments64 s1 s2 = Some res \<and> intersect64 res
           \<and> (t64 res = Some (Fin 0) \<or> t64 res = Some (Fin 1))
           \<and> (u64 res = Some (Fin 0) \<or> u64 res = Some (Fin 1))"
proof -
  from assms(1) have "p \<in> endpoints64 s1" "p \<in> endpoints64 s2" by auto
  with assms(2) consider
    (ss) "start64 s1 = start64 s2" | (se) "start64 s1 = end64 s2" | (es) "end64 s1 = start64 s2"
    by (auto simp add: endpoints64_def)
  then have tu: "(a = 0 \<or> a = d) \<and> (b = 0 \<or> b = d)"
  proof cases
    case ss
    from shared_start_start64 [OF ss assms(3)] assms(5,6) show ?thesis by simp
  next
    case se
    from shared_start_end64 [OF se assms(5)] assms(3,5,6) show ?thesis by simp
  next
    case es
    from shared_end_start64 [OF es assms(6)] assms(3,5,6) show ?thesis by simp
  qed
  from crossing_branch64 [OF assms(3,4,5,6)] obtain res where
    res: "segments64 s1 s2 = Some res" "t64 res = Some (round64 (a / d))"
      "u64 res = Some (round64 (b / d))"
      "intersect64 res = (between64 (round64 (a / d)) (Fin 0) (Fin 1) \<and> between64 (round64 (b / d)) (Fin 0) (Fin 1))"
    by blast
  from tu assms(4) have ta: "round64 (a / d) = Fin 0 \<or> round64 (a / d) = Fin 1"
    by (auto simp add: round64_zero round64_one)
  from tu assms(4) have ub: "round64 (b / d) = Fin 0 \<or> round64 (b / d) = Fin 1"
    by (auto simp add: round64_zero round64_one)
  from ta ub have "intersect64 res" unfolding res(4) using between64_zero_one by auto
  with ta ub res(1,2,3) show ?thesis by auto
qed

theorem shared_endpoint_intersect64_witness:
  "endpoints64 (Segment64_new (Fin 0) (Fin 0) (Fin 1) (Fin 0))
     \<inter> endpoints64 (Segment64_new (Fin 1) (Fin 0) (Fin 1) (Fin 2)) = {\<lparr>x64 = Fin 1, y64 = Fin 0\<rparr>}
   \<and> end64 (Segment64_new (Fin 0) (Fin 0) (Fin 1) (Fin 0)) \<noteq> end64 (Segment64_new (Fin 1) (Fin 0) (Fin 1) (Fin 2))
   \<and> tDen64 (Segment64_new (Fin 0) (Fin 0) (Fin 1) (Fin 0)) (Segment64_new (Fin 1) (Fin 0) (Fin 1) (Fin 2)) = Fin 2
   \<and> tNom64 (Segment64_new (Fin 0) (Fin 0) (Fin 1) (Fin 0)) (Segment64_new (Fin 1) (Fin 0) (Fin 1) (Fin 2)) = Fin 2
   \<and> uNom64 (Segment64_new (Fin 0) (Fin 0) (Fin 1) (Fin 0)) (Segment64_new (Fin 1) (Fin 0) (Fin 1) (Fin 2)) = Fin 0
   \<and> (\<exists>res. segments64 (Segment64_new (Fin 0) (Fin 0) (Fin 1) (Fin 0))
               (Segment64_new (Fin 1) (Fin 0) (Fin 1) (Fin 2)) = Some res \<and> intersect64 res
           \<and> (t64 res = Some (Fin 0) \<or> t64 res = Some (Fin 1))
           \<and> (u64 res = Some (Fin 0) \<or> u64 res = Some (Fin 1)))"
proof -
  let ?s1 = "Segment64_new (Fin 0) (Fin 0) (Fin 1) (Fin 0)"
  let ?s2 = "Segment64_new (Fin 1) (Fin 0) (Fin 1) (Fin 2)"
  have e: "endpoints64 ?s1 \<inter> endpoints64 ?s2 = {\<lparr>x64 = Fin 1, y64 = Fin 0\<rparr>}"
    by (auto simp add: endpoints64_def Segment64_new_def)
  have n: "end64 ?s1 \<noteq> end64 ?s2" by (simp add: Segment64_new_def)
  have d: "tDen64 ?s1 ?s2 = Fin 2"
    by (simp add: tDen64_def Segment64_new_def dsub_def round64_small)
  have t: "tNom64 ?s1 ?s2 = Fin 2"
    by (simp add: tNom64_def Segment64_new_def dsub_def round64_small)
  have u: "uNom64 ?s1 ?s2 = Fin 0"
    by (simp add: uNom64_def Segment64_new_def dsub_def round64_small)
  have z: "(2::real) \<noteq> 0" by simp
  from shared_endpoint_intersect64 [OF e n d z t u] e n d t u show ?thesis by blast
qed

end
